theory Spec2Isabelle
  imports Complex_Main
begin

section \<open>Chunking utility (server.js, chunkArray)\<close>

text \<open>
  \<^verbatim>\<open>Array.prototype.slice(start, end)\<close> on integer arguments: a negative index counts
  from the end of the array and is clamped at 0, a non-negative one is clamped at the
  length; the result holds the elements from the clamped start up to, not including,
  the clamped end (nothing when the end is not after the start).
\<close>

definition slice :: "'a list \<Rightarrow> int \<Rightarrow> int \<Rightarrow> 'a list" where
  "slice xs start fin =
     (let len = int (length xs);
          k = (if start < 0 then max (len + start) 0 else min start len);
          final = (if fin < 0 then max (len + fin) 0 else min fin len)
      in take (nat (final - k)) (drop (nat k) xs))"

text \<open>
  The loop of \<^verbatim>\<open>chunkArray\<close>,
  \<^verbatim>\<open>for (let i = 0; i < array.length; i += size) result.push(array.slice(i, i + size))\<close>,
  with the loop variable \<open>i\<close> and the accumulated \<open>result\<close> as arguments. Nothing in
  the source bounds the number of iterations, so the loop is a partial function: the value
  \<open>None\<close> stands for a call that never returns. The parameter \<open>size\<close> of the source is
  written \<open>sz\<close>, and sizes are integers.
\<close>

partial_function (option) chunkArray_loop ::
  "'a list \<Rightarrow> int \<Rightarrow> int \<Rightarrow> 'a list list \<Rightarrow> 'a list list option" where
  "chunkArray_loop array sz i result =
     (if i < int (length array)
      then chunkArray_loop array sz (i + sz) (result @ [slice array i (i + sz)])
      else Some result)"

declare chunkArray_loop.simps [code]

definition chunkArray :: "'a list \<Rightarrow> int \<Rightarrow> 'a list list option" where
  "chunkArray array sz = chunkArray_loop array sz 0 []"

text \<open>
  A reference function for the proofs, not part of the program: the list cut into
  consecutive pieces of \<open>n\<close> elements, the last one possibly shorter.
\<close>

fun chunks_of :: "nat \<Rightarrow> 'a list \<Rightarrow> 'a list list" where
  "chunks_of n xs = (if n = 0 \<or> xs = [] then [] else take n xs # chunks_of n (drop n xs))"

declare chunks_of.simps [simp del]

section \<open>Values, requests and responses\<close>

text \<open>
  The values that travel through the server are JSON values: request bodies, table rows
  and response bodies. Numbers are modelled as integers (the program only counts rows and
  computes page offsets with them), and an object is the list of its own properties, keys
  distinct. JavaScript's \<^verbatim>\<open>undefined\<close> is \<open>None\<close> of a \<open>json option\<close>.
\<close>

datatype json = JNull | JBool bool | JNum int | JStr string | JArr "json list"
  | JObj "(string \<times> json) list"

text \<open>
  The parts of an Express request that the program reads: \<^verbatim>\<open>req.headers\<close>,
  \<^verbatim>\<open>req.query\<close>, \<^verbatim>\<open>req.params\<close>, \<^verbatim>\<open>req.body\<close> and the field
  \<^verbatim>\<open>req.user\<close> that the auth middleware writes. A response is the status code
  given to \<^verbatim>\<open>res.status\<close> (200 when the handler sets none) and the argument of
  \<^verbatim>\<open>res.json\<close>.

  Express parses the query string into \<^verbatim>\<open>req.query\<close>: a parameter given once is a
  string, a repeated one (\<^verbatim>\<open>?q=a&q=b\<close>) is an array and a bracketed one
  (\<^verbatim>\<open>?q[k]=a\<close>) an object, of such values again. \<open>to_string\<close> is the conversion to
  a string that \<^verbatim>\<open>parseInt\<close> applies to its argument: an array is its elements joined
  by commas, an object is \<^verbatim>\<open>[object Object]\<close>.
\<close>

datatype qvalue = QStr string | QArr "qvalue list" | QObj "(string \<times> qvalue) list"

fun join_comma :: "string list \<Rightarrow> string" where
  "join_comma [] = []"
| "join_comma [x] = x"
| "join_comma (x # y # ys) = x @ '','' @ join_comma (y # ys)"

fun to_string :: "qvalue \<Rightarrow> string" where
  "to_string (QStr v) = v"
| "to_string (QArr vs) = join_comma (map to_string vs)"
| "to_string (QObj kvs) = ''[object Object]''"

record request =
  headers :: "string \<rightharpoonup> string"
  query :: "string \<rightharpoonup> qvalue"
  params :: "string \<rightharpoonup> string"
  body :: "json option"
  user :: "json option"

record response =
  status :: nat
  json_body :: "json option"

definition json_error :: "string \<Rightarrow> json option" where
  "json_error msg = Some (JObj [(''error'', JStr msg)])"

definition json_message :: "string \<Rightarrow> json option" where
  "json_message msg = Some (JObj [(''message'', JStr msg)])"

text \<open>
  JavaScript's truthiness, property access and \<^verbatim>\<open>Array.isArray\<close> on these values.
\<close>

definition truthy :: "json option \<Rightarrow> bool" where
  "truthy v = (case v of None \<Rightarrow> False | Some JNull \<Rightarrow> False | Some (JBool b) \<Rightarrow> b
     | Some (JNum n) \<Rightarrow> n \<noteq> 0 | Some (JStr s) \<Rightarrow> s \<noteq> [] | Some (JArr xs) \<Rightarrow> True
     | Some (JObj kvs) \<Rightarrow> True)"

definition get_prop :: "json \<Rightarrow> string \<Rightarrow> json option" where
  "get_prop v key = (case v of JObj kvs \<Rightarrow> map_of kvs key | _ \<Rightarrow> None)"

definition isArray :: "json option \<Rightarrow> bool" where
  "isArray v = (case v of Some (JArr xs) \<Rightarrow> True | _ \<Rightarrow> False)"

subsection \<open>Strings and numbers\<close>

text \<open>
  \<^verbatim>\<open>String.prototype.trim\<close> removes white space and line terminators at both ends;
  among the characters below 256 these are tab, line feed, vertical tab, form feed,
  carriage return, space and the no-break space.
\<close>

definition is_space :: "char \<Rightarrow> bool" where
  "is_space c = (c \<in> set [CHR 0x09, CHR 0x0A, CHR 0x0B, CHR 0x0C, CHR 0x0D, CHR 0x20, CHR 0xA0])"

definition trim :: "string \<Rightarrow> string" where
  "trim s = rev (dropWhile is_space (rev (dropWhile is_space s)))"

text \<open>
  \<^verbatim>\<open>parseInt(string)\<close> without a radix: leading white space is skipped, a sign is
  read, a prefix \<^verbatim>\<open>0x\<close> or \<^verbatim>\<open>0X\<close> selects base 16, and the longest run of digits
  of the base is the value; with no digit the result is \<^verbatim>\<open>NaN\<close>, here \<open>None\<close>.
  \<^verbatim>\<open>parseInt(undefined)\<close> is \<^verbatim>\<open>NaN\<close> too. The function \<open>num_or\<close> is the
  expression \<^verbatim>\<open>n || d\<close> on such a result: \<^verbatim>\<open>NaN\<close> and 0 give the default.
\<close>

definition digit_of :: "nat \<Rightarrow> char \<Rightarrow> nat option" where
  "digit_of radix c =
     (let n = (of_char c :: nat);
          v = (if 48 \<le> n \<and> n \<le> 57 then Some (n - 48)
               else if 97 \<le> n \<and> n \<le> 122 then Some (n - 87)
               else if 65 \<le> n \<and> n \<le> 90 then Some (n - 55)
               else None)
      in case v of None \<Rightarrow> None | Some d \<Rightarrow> if d < radix then Some d else None)"

fun digits_prefix :: "nat \<Rightarrow> string \<Rightarrow> nat list" where
  "digits_prefix radix [] = []"
| "digits_prefix radix (c # cs) =
     (case digit_of radix c of None \<Rightarrow> [] | Some d \<Rightarrow> d # digits_prefix radix cs)"

definition parseInt :: "string option \<Rightarrow> int option" where
  "parseInt arg =
     (case arg of None \<Rightarrow> None
      | Some str \<Rightarrow>
         (let s = dropWhile is_space str;
              negative = (case s of [] \<Rightarrow> False | c # _ \<Rightarrow> c = CHR ''-'');
              s1 = (case s of [] \<Rightarrow> s | c # r \<Rightarrow> if c = CHR ''-'' \<or> c = CHR ''+'' then r else s);
              hex = (case s1 of a # b # _ \<Rightarrow> a = CHR ''0'' \<and> (b = CHR ''x'' \<or> b = CHR ''X'') | _ \<Rightarrow> False);
              radix = (if hex then 16 else 10);
              s2 = (if hex then drop 2 s1 else s1);
              ds = digits_prefix radix s2;
              n = int (foldl (\<lambda>acc d. acc * radix + d) 0 ds)
          in if ds = [] then None else Some (if negative then - n else n)))"

definition num_or :: "int option \<Rightarrow> int \<Rightarrow> int" where
  "num_or v d = (case v of None \<Rightarrow> d | Some n \<Rightarrow> if n = 0 then d else n)"

text \<open>The decimal digits of a number, as template literals print it.\<close>

fun show_nat :: "nat \<Rightarrow> string" where
  "show_nat n = (if n < 10 then [''0123456789'' ! n]
     else show_nat (n div 10) @ [''0123456789'' ! (n mod 10)])"

declare show_nat.simps [simp del]

definition show_int :: "int \<Rightarrow> string" where
  "show_int i = (if i < 0 then CHR ''-'' # show_nat (nat (- i)) else show_nat (nat i))"

text \<open>
  \<^verbatim>\<open>str.split(sep)\<close> for a one-character separator, and indexing into the result
  (an index past the end gives \<^verbatim>\<open>undefined\<close>).
\<close>

fun split_on :: "char \<Rightarrow> string \<Rightarrow> string list" where
  "split_on sep [] = [[]]"
| "split_on sep (c # cs) =
     (if c = sep then [] # split_on sep cs
      else (case split_on sep cs of [] \<Rightarrow> [[c]] | w # ws \<Rightarrow> (c # w) # ws))"

definition nth_opt :: "'a list \<Rightarrow> nat \<Rightarrow> 'a option" where
  "nth_opt xs n = (if n < length xs then Some (xs ! n) else None)"

section \<open>The backend client\<close>

text \<open>
  The Supabase client is outside the program: the model takes it as a parameter, a function
  from a call and the state of the remote store to a reply and the new state. The calls are
  the ones the modelled functions issue:
  \<^item> \<open>Upsert t rows ign\<close>: \<^verbatim>\<open>from(t).upsert(rows, {onConflict: 'id', ignoreDuplicates: ign})\<close>;
  \<^item> \<open>Insert t rows\<close>: \<^verbatim>\<open>from(t).insert(rows)\<close>;
  \<^item> \<open>SelectRange t mode pattern from to\<close>: \<^verbatim>\<open>from(t).select("*", {count: mode})\<close>,
    filtered by \<^verbatim>\<open>ilike("original_title", pattern)\<close> when a pattern is given, then
    \<^verbatim>\<open>order("release_date", {ascending: false}).range(from, to)\<close>;
  \<^item> \<open>SelectSingle t id\<close>: \<^verbatim>\<open>from(t).select("*").eq("id", id).single()\<close>;
  \<^item> \<open>Update t body id\<close>: \<^verbatim>\<open>from(t).update(body).eq("id", id).select()\<close>.
  A reply carries the fields \<^verbatim>\<open>data\<close>, \<^verbatim>\<open>error\<close> (here the error's message, \<open>None\<close>
  for \<^verbatim>\<open>null\<close>) and \<^verbatim>\<open>count\<close> that the program destructures.
\<close>

datatype count_mode = Exact | Estimated

datatype db_call =
    Upsert string "json list" bool
  | Insert string "json list"
  | SelectRange string count_mode "string option" int int
  | SelectSingle string json
  | Update string "json option" "string option"

record reply =
  rdata :: json
  rerror :: "string option"
  rcount :: "int option"

type_synonym 's backend = "db_call \<Rightarrow> 's \<Rightarrow> reply \<times> 's"

section \<open>Bulk insert (server.js, insertChunks)\<close>

text \<open>
  \<^verbatim>\<open>insertChunks\<close> returns an object with the fields \<^verbatim>\<open>error\<close> (absent on success)
  and \<^verbatim>\<open>insertedTotal\<close>. Its loop runs over \<^verbatim>\<open>chunks.entries()\<close>: \<open>i\<close> is the
  index of the current chunk, \<open>n\<close> is \<^verbatim>\<open>chunks.length\<close>, and \<open>inserted\<close> is the running
  \<^verbatim>\<open>insertedTotal\<close>. The function does not return when \<^verbatim>\<open>chunkArray\<close> does not.
\<close>

record insert_result =
  error :: "string option"
  insertedTotal :: nat

definition chunk_failed :: "nat \<Rightarrow> nat \<Rightarrow> string \<Rightarrow> string" where
  "chunk_failed i n msg =
     ''Chunk '' @ show_nat (i + 1) @ ''/'' @ show_nat n @ '' failed: '' @ msg"

fun insertChunks_loop ::
  "'s backend \<Rightarrow> string \<Rightarrow> string \<Rightarrow> nat \<Rightarrow> nat \<Rightarrow> json list list \<Rightarrow> nat \<Rightarrow> 's
     \<Rightarrow> insert_result \<times> 's" where
  "insertChunks_loop be tableName mode n i [] inserted s =
     (\<lparr>error = None, insertedTotal = inserted\<rparr>, s)"
| "insertChunks_loop be tableName mode n i (chunk # rest) inserted s =
     (if mode = ''skip'' then
        (case be (Upsert tableName chunk True) s of (r, s') \<Rightarrow>
           (case rerror r of
              Some msg \<Rightarrow> (\<lparr>error = Some (chunk_failed i n msg), insertedTotal = inserted\<rparr>, s')
            | None \<Rightarrow>
                insertChunks_loop be tableName mode n (i + 1) rest (inserted + length chunk) s'))
      else if mode = ''merge'' then
        (case be (Upsert tableName chunk False) s of (r, s') \<Rightarrow>
           (case rerror r of
              Some msg \<Rightarrow> (\<lparr>error = Some (chunk_failed i n msg), insertedTotal = inserted\<rparr>, s')
            | None \<Rightarrow>
                insertChunks_loop be tableName mode n (i + 1) rest (inserted + length chunk) s'))
      else
        (case be (Insert tableName chunk) s of (r, s') \<Rightarrow>
           (case rerror r of
              Some msg \<Rightarrow> (\<lparr>error = Some (chunk_failed i n msg), insertedTotal = inserted\<rparr>, s')
            | None \<Rightarrow>
                insertChunks_loop be tableName mode n (i + 1) rest (inserted + length chunk) s')))"

definition insertChunks ::
  "'s backend \<Rightarrow> string \<Rightarrow> json list \<Rightarrow> int \<Rightarrow> string \<Rightarrow> 's
     \<Rightarrow> (insert_result \<times> 's) option" where
  "insertChunks be tableName rows chunkSize mode s =
     (case chunkArray rows chunkSize of
        None \<Rightarrow> None
      | Some chunks \<Rightarrow> Some (insertChunks_loop be tableName mode (length chunks) 0 chunks 0 s))"

section \<open>Streaming ingest (server.js, ingestNdjsonFromUrl)\<close>

text \<open>
  \<^verbatim>\<open>fetch\<close> and \<^verbatim>\<open>JSON.parse\<close> are parameters of the model. A fetch either rejects
  (\<open>Inl\<close> with the error's message) or gives a response with \<^verbatim>\<open>ok\<close>, \<^verbatim>\<open>status\<close>,
  \<^verbatim>\<open>statusText\<close> and a body, here the lines that \<^verbatim>\<open>readline\<close> yields from it. A
  thrown \<^verbatim>\<open>Error\<close> is \<open>Inl\<close> of its message. The loop variables \<^verbatim>\<open>buffer\<close> and
  \<^verbatim>\<open>total\<close> are arguments; \<^verbatim>\<open>insertChunks\<close> is called with three arguments, so
  its mode is the default \<^verbatim>\<open>'skip'\<close>.
\<close>

record fetch_response =
  ok :: bool
  http_status :: nat
  statusText :: string
  body_lines :: "string list"

fun ingest_loop ::
  "'s backend \<Rightarrow> (string \<Rightarrow> string + json) \<Rightarrow> string \<Rightarrow> int \<Rightarrow> string list \<Rightarrow> json list
     \<Rightarrow> nat \<Rightarrow> 's \<Rightarrow> ((string + nat) \<times> 's) option" where
  "ingest_loop be parse tableName chunkSize [] buffer total' s =
     (if buffer \<noteq> [] then
        (case insertChunks be tableName buffer chunkSize ''skip'' s of
           None \<Rightarrow> None
         | Some (res, s') \<Rightarrow>
            (case error res of
               Some e \<Rightarrow> Some (Inl e, s')
             | None \<Rightarrow> Some (Inr (total' + insertedTotal res), s')))
      else Some (Inr total', s))"
| "ingest_loop be parse tableName chunkSize (line # rest) buffer total' s =
     (let trimmed = trim line in
      if trimmed = [] then ingest_loop be parse tableName chunkSize rest buffer total' s
      else
        (case parse trimmed of
           Inl e \<Rightarrow> Some (Inl e, s)
         | Inr obj \<Rightarrow>
            (let buffer' = buffer @ [obj] in
             if int (length buffer') \<ge> chunkSize then
               (case insertChunks be tableName buffer' chunkSize ''skip'' s of
                  None \<Rightarrow> None
                | Some (res, s') \<Rightarrow>
                   (case error res of
                      Some e \<Rightarrow> Some (Inl e, s')
                    | None \<Rightarrow>
                        ingest_loop be parse tableName chunkSize rest []
                          (total' + insertedTotal res) s'))
             else ingest_loop be parse tableName chunkSize rest buffer' total' s)))"

definition ingestNdjsonFromUrl ::
  "'s backend \<Rightarrow> (json \<Rightarrow> string + fetch_response) \<Rightarrow> (string \<Rightarrow> string + json)
     \<Rightarrow> string \<Rightarrow> json \<Rightarrow> int \<Rightarrow> 's \<Rightarrow> ((string + nat) \<times> 's) option" where
  "ingestNdjsonFromUrl be fetch parse tableName fileUrl chunkSize s =
     (case fetch fileUrl of
        Inl e \<Rightarrow> Some (Inl e, s)
      | Inr resp \<Rightarrow>
         if \<not> ok resp then
           Some (Inl (''Failed to fetch fileUrl: '' @ show_nat (http_status resp) @ '' ''
                        @ statusText resp), s)
         else ingest_loop be parse tableName chunkSize (body_lines resp) [] 0 s)"

section \<open>Auth middleware (server.js, authMiddleware)\<close>

text \<open>
  \<^verbatim>\<open>jwt.verify\<close> and the secret \<^verbatim>\<open>process.env.MY_API_KEY\<close> are parameters. The
  middleware either sends a response (\<open>Inl\<close>) or calls \<^verbatim>\<open>next()\<close> with the request it
  has extended (\<open>Inr\<close>). The test \<^verbatim>\<open>!authHeader\<close> holds for a missing header and for
  an empty one.
\<close>

definition authMiddleware ::
  "(string option \<Rightarrow> string option \<Rightarrow> string + json) \<Rightarrow> string option \<Rightarrow> request
     \<Rightarrow> response + request" where
  "authMiddleware jwt_verify secret req =
     (case headers req ''authorization'' of
        None \<Rightarrow> Inl \<lparr>status = 401, json_body = json_error ''Unauthorized''\<rparr>
      | Some authHeader \<Rightarrow>
         if authHeader = [] then Inl \<lparr>status = 401, json_body = json_error ''Unauthorized''\<rparr>
         else
           (let token = nth_opt (split_on CHR '' '' authHeader) 1 in
            case jwt_verify token secret of
              Inl err \<Rightarrow> Inl \<lparr>status = 403, json_body = json_error ''Forbidden''\<rparr>
            | Inr decoded \<Rightarrow> Inr (req\<lparr>user := Some decoded\<rparr>)))"

section \<open>Route handlers (server.js, generateRoutes)\<close>

text \<open>
  \<^verbatim>\<open>Math.ceil(count / limit)\<close> is the integer ceiling of the quotient, which the
  floating-point computation gives exactly for every count below \<open>2^53\<close>; a \<^verbatim>\<open>null\<close>
  count divides as 0.
\<close>

definition count_json :: "int option \<Rightarrow> json" where
  "count_json c = (case c of None \<Rightarrow> JNull | Some n \<Rightarrow> JNum n)"

definition ceil_div :: "int \<Rightarrow> int \<Rightarrow> int" where
  "ceil_div a b = - ((- a) div b)"

text \<open>The handler of \<^verbatim>\<open>GET /api/T\<close>.\<close>

definition list_handler :: "'s backend \<Rightarrow> string \<Rightarrow> request \<Rightarrow> 's \<Rightarrow> response \<times> 's" where
  "list_handler be tableName req s =
     (let page = num_or (parseInt (map_option to_string (query req ''page''))) 1;
          limit = 30;
          from = (page - 1) * limit;
          to = from + limit - 1
      in case be (SelectRange tableName Exact None from to) s of (r, s') \<Rightarrow>
          (case rerror r of
             Some msg \<Rightarrow> (\<lparr>status = 400, json_body = json_error msg\<rparr>, s')
           | None \<Rightarrow>
              (\<lparr>status = 200,
                json_body = Some (JObj
                  [(''page'', JNum page),
                   (''total'', count_json (rcount r)),
                   (''totalPages'', JNum (ceil_div (case rcount r of None \<Rightarrow> 0 | Some c \<Rightarrow> c) limit)),
                   (''results'', rdata r)])\<rparr>, s')))"

text \<open>
  The handler of \<^verbatim>\<open>GET /api/T/search\<close>. \<open>trimmed_param name v\<close> is the expression
  \<^verbatim>\<open>(req.query.name || '').trim()\<close>: an absent or empty parameter gives the empty
  string, a string is trimmed, and an array or an object, which has no method
  \<^verbatim>\<open>trim\<close>, makes the call throw a \<^verbatim>\<open>TypeError\<close> (\<open>Inl\<close> of its message, in the
  engine's wording). Both parameters are trimmed, \<^verbatim>\<open>q\<close> first, before \<^verbatim>\<open>id\<close> is
  tested, and the handler's \<^verbatim>\<open>catch\<close> answers a thrown error with status 500. The
  variable \<^verbatim>\<open>id\<close> of the source is written \<open>id'\<close>.
\<close>

definition trimmed_param :: "string \<Rightarrow> qvalue option \<Rightarrow> string + string" where
  "trimmed_param name v =
     (case v of
        None \<Rightarrow> Inr (trim [])
      | Some (QStr text) \<Rightarrow> Inr (trim text)
      | Some _ \<Rightarrow>
          Inl (''(req.query.'' @ name @ '' || '' @ [CHR 0x22, CHR 0x22]
                 @ '').trim is not a function''))"

definition search_handler :: "'s backend \<Rightarrow> string \<Rightarrow> request \<Rightarrow> 's \<Rightarrow> response \<times> 's" where
  "search_handler be tableName req s =
     (case trimmed_param ''q'' (query req ''q'') of
        Inl e \<Rightarrow> (\<lparr>status = 500, json_body = json_error e\<rparr>, s)
      | Inr q \<Rightarrow>
     (case trimmed_param ''id'' (query req ''id'') of
        Inl e \<Rightarrow> (\<lparr>status = 500, json_body = json_error e\<rparr>, s)
      | Inr id' \<Rightarrow>
         if id' \<noteq> [] then
           (case be (SelectSingle tableName (JStr id')) s of (r, s') \<Rightarrow>
              (case rerror r of
                 Some msg \<Rightarrow> (\<lparr>status = 404, json_body = json_error msg\<rparr>, s')
               | None \<Rightarrow> (\<lparr>status = 200, json_body = Some (rdata r)\<rparr>, s')))
         else if q = [] then
           (\<lparr>status = 400, json_body = json_error ''Provide either ?q or ?id''\<rparr>, s)
         else
           (let page = num_or (parseInt (map_option to_string (query req ''page''))) 1;
                limit = 30;
                from = (page - 1) * limit;
                to = from + limit - 1;
                countMode = (if query req ''count'' = Some (QStr ''exact'') then Exact
                             else Estimated)
            in case be (SelectRange tableName countMode (Some (''%'' @ q @ ''%'')) from to) s of
                 (r, s') \<Rightarrow>
                  (case rerror r of
                     Some msg \<Rightarrow> (\<lparr>status = 400, json_body = json_error msg\<rparr>, s')
                   | None \<Rightarrow>
                      (\<lparr>status = 200,
                        json_body = Some (JObj
                          [(''page'', JNum page),
                           (''total'', count_json (rcount r)),
                           (''totalPages'',
                              (case rcount r of None \<Rightarrow> JNull | Some c \<Rightarrow> JNum (ceil_div c limit))),
                           (''results'', rdata r)])\<rparr>, s')))))"

text \<open>
  The handler of \<^verbatim>\<open>PUT /api/T/:id\<close>, after the auth middleware. The expression
  \<^verbatim>\<open>data[0]\<close> is \<^verbatim>\<open>undefined\<close> on an empty array and throws on \<^verbatim>\<open>null\<close>, which the
  handler's \<^verbatim>\<open>catch\<close> turns into a 500 response.
\<close>

definition first_element :: "json \<Rightarrow> string + json option" where
  "first_element d =
     (case d of
        JArr xs \<Rightarrow> Inr (case xs of [] \<Rightarrow> None | x # _ \<Rightarrow> Some x)
      | JNull \<Rightarrow> Inl ''Cannot read properties of null (reading '0')''
      | JStr cs \<Rightarrow> Inr (case cs of [] \<Rightarrow> None | c # _ \<Rightarrow> Some (JStr [c]))
      | JObj kvs \<Rightarrow> Inr (map_of kvs ''0'')
      | _ \<Rightarrow> Inr None)"

definition update_handler :: "'s backend \<Rightarrow> string \<Rightarrow> request \<Rightarrow> 's \<Rightarrow> response \<times> 's" where
  "update_handler be tableName req s =
     (case be (Update tableName (body req) (params req ''id'')) s of (r, s') \<Rightarrow>
        (case rerror r of
           Some msg \<Rightarrow> (\<lparr>status = 400, json_body = json_error msg\<rparr>, s')
         | None \<Rightarrow>
            (case first_element (rdata r) of
               Inl e \<Rightarrow> (\<lparr>status = 500, json_body = json_error e\<rparr>, s')
             | Inr row \<Rightarrow> (\<lparr>status = 200, json_body = row\<rparr>, s'))))"

text \<open>
  The handler of \<^verbatim>\<open>POST /api/T/bulk-upload\<close>, after the auth middleware.
  \<open>or_empty_object\<close> is the expression \<^verbatim>\<open>req.body || {}\<close>. The handler tests the three
  input shapes in the order array body, \<^verbatim>\<open>items\<close>, \<^verbatim>\<open>fileUrl\<close>, and an error thrown
  by the ingest is caught and answered with status 500.
\<close>

definition or_empty_object :: "json option \<Rightarrow> json" where
  "or_empty_object v = (case v of None \<Rightarrow> JObj [] | Some x \<Rightarrow> if truthy v then x else JObj [])"

definition inserted_message :: "nat \<Rightarrow> string \<Rightarrow> int \<Rightarrow> string" where
  "inserted_message n tableName chunkSize =
     ''Inserted '' @ show_nat n @ '' records into '' @ tableName @ '' in chunks of ''
       @ show_int chunkSize"

definition stream_inserted_message :: "nat \<Rightarrow> string \<Rightarrow> int \<Rightarrow> string" where
  "stream_inserted_message n tableName chunkSize =
     ''Stream-inserted '' @ show_nat n @ '' records into '' @ tableName @ '' in chunks of ''
       @ show_int chunkSize"

definition bulk_upload_handler ::
  "'s backend \<Rightarrow> (json \<Rightarrow> string + fetch_response) \<Rightarrow> (string \<Rightarrow> string + json)
     \<Rightarrow> string \<Rightarrow> request \<Rightarrow> 's \<Rightarrow> (response \<times> 's) option" where
  "bulk_upload_handler be fetch parse tableName req s =
     (let chunkSize = max 1 (num_or (parseInt (map_option to_string (query req ''chunkSize''))) 30) in
      case body req of
        Some (JArr rows) \<Rightarrow>
          (case insertChunks be tableName rows chunkSize ''skip'' s of
             None \<Rightarrow> None
           | Some (res, s') \<Rightarrow>
              (case error res of
                 Some e \<Rightarrow> Some (\<lparr>status = 400, json_body = json_error e\<rparr>, s')
               | None \<Rightarrow>
                  Some (\<lparr>status = 200, json_body = json_message
                          (inserted_message (insertedTotal res) tableName chunkSize)\<rparr>, s')))
      | _ \<Rightarrow>
          (let items = get_prop (or_empty_object (body req)) ''items'';
               fileUrl = get_prop (or_empty_object (body req)) ''fileUrl''
           in case items of
                Some (JArr rows) \<Rightarrow>
                  (case insertChunks be tableName rows chunkSize ''skip'' s of
                     None \<Rightarrow> None
                   | Some (res, s') \<Rightarrow>
                      (case error res of
                         Some e \<Rightarrow> Some (\<lparr>status = 400, json_body = json_error e\<rparr>, s')
                       | None \<Rightarrow>
                          Some (\<lparr>status = 200, json_body = json_message
                                  (inserted_message (insertedTotal res) tableName chunkSize)\<rparr>, s')))
              | _ \<Rightarrow>
                  if truthy fileUrl then
                    (case ingestNdjsonFromUrl be fetch parse tableName
                            (case fileUrl of Some u \<Rightarrow> u | None \<Rightarrow> JNull) chunkSize s of
                       None \<Rightarrow> None
                     | Some (Inl e, s') \<Rightarrow> Some (\<lparr>status = 500, json_body = json_error e\<rparr>, s')
                     | Some (Inr n, s') \<Rightarrow>
                        Some (\<lparr>status = 200, json_body = json_message
                                (stream_inserted_message n tableName chunkSize)\<rparr>, s'))
                  else
                    Some (\<lparr>status = 400, json_body = json_error
                      ''Provide either an array body, { items: [...] }, or { fileUrl } pointing to NDJSON''\<rparr>, s)))"

text \<open>
  The number of input shapes a request carries, with the tests the handler applies:
  the body is an array, \<^verbatim>\<open>items\<close> is an array, \<^verbatim>\<open>fileUrl\<close> is truthy.
\<close>

definition shapes_present :: "request \<Rightarrow> nat" where
  "shapes_present req =
     (if isArray (body req) then 1 else 0)
     + (if isArray (get_prop (or_empty_object (body req)) ''items'') then 1 else 0)
     + (if truthy (get_prop (or_empty_object (body req)) ''fileUrl'') then 1 else 0)"

section \<open>Route registration and dispatch\<close>

text \<open>
  Express keeps the routes in the order of their registration and gives a request to the
  first one whose method and path pattern match. A path is the list of its segments. A
  literal segment matches without regard to letter case (Express's default), a parameter
  \<^verbatim>\<open>:id\<close> matches any non-empty segment and \<^verbatim>\<open>:id(\\d+)\<close> a non-empty segment of
  digits. \<open>generateRoutes\<close> lists the routes in the order \<^verbatim>\<open>generateRoutes\<close> registers
  them, each with the name of its handler; a table name is one literal segment, as the
  three configured names are.
\<close>

datatype http_method = GET | POST | PUT | DELETE

datatype segment = Lit string | Param string | DigitsParam string

datatype route_id = Create string | ListRows string | WithVideo string | Search string
  | GetById string | UpdateRow string | DeleteRow string | BulkUpload string | Health

definition lower_char :: "char \<Rightarrow> char" where
  "lower_char c = (let n = (of_char c :: nat) in if 65 \<le> n \<and> n \<le> 90 then char_of (n + 32) else c)"

definition is_digit :: "char \<Rightarrow> bool" where
  "is_digit c = (let n = (of_char c :: nat) in 48 \<le> n \<and> n \<le> 57)"

fun seg_match :: "segment \<Rightarrow> string \<Rightarrow> bool" where
  "seg_match (Lit l) s = (map lower_char l = map lower_char s)"
| "seg_match (Param name) s = (s \<noteq> [])"
| "seg_match (DigitsParam name) s = (s \<noteq> [] \<and> list_all is_digit s)"

fun path_match :: "segment list \<Rightarrow> string list \<Rightarrow> bool" where
  "path_match [] [] = True"
| "path_match (p # ps) (s # ss) = (seg_match p s \<and> path_match ps ss)"
| "path_match _ _ = False"

type_synonym route = "http_method \<times> segment list \<times> route_id"

definition generateRoutes :: "string \<Rightarrow> route list" where
  "generateRoutes tableName =
     [(POST, [Lit ''api'', Lit tableName], Create tableName),
      (GET, [Lit ''api'', Lit tableName], ListRows tableName),
      (GET, [Lit ''api'', Lit tableName, Lit ''with-video''], WithVideo tableName),
      (GET, [Lit ''api'', Lit tableName, Lit ''search''], Search tableName),
      (GET, [Lit ''api'', Lit tableName, DigitsParam ''id''], GetById tableName),
      (PUT, [Lit ''api'', Lit tableName, Param ''id''], UpdateRow tableName),
      (DELETE, [Lit ''api'', Lit tableName, Param ''id''], DeleteRow tableName),
      (POST, [Lit ''api'', Lit tableName, Lit ''bulk-upload''], BulkUpload tableName)]"

definition app_routes :: "route list" where
  "app_routes = concat (map generateRoutes [''movies'', ''series'', ''anime'']) @ [(GET, [], Health)]"

fun dispatch :: "route list \<Rightarrow> http_method \<Rightarrow> string list \<Rightarrow> route_id option" where
  "dispatch [] m path = None"
| "dispatch ((m', pat, h) # rs) m path =
     (if m' = m \<and> path_match pat path then Some h else dispatch rs m path)"

section \<open>Observing the backend\<close>

text \<open>
  Not part of the program: \<open>run_calls\<close> sends a list of calls to the backend one after the
  other, \<open>logged\<close> wraps a backend so that the state also records every call it receives,
  in order, and \<open>write_call\<close> names the write that \<^verbatim>\<open>insertChunks\<close> issues for one chunk in
  a given mode.
\<close>

fun run_calls :: "'s backend \<Rightarrow> db_call list \<Rightarrow> 's \<Rightarrow> reply list \<times> 's" where
  "run_calls be [] s = ([], s)"
| "run_calls be (c # cs) s =
     (case be c s of (r, s') \<Rightarrow> (case run_calls be cs s' of (rs, s'') \<Rightarrow> (r # rs, s'')))"

definition logged :: "'s backend \<Rightarrow> ('s \<times> db_call list) backend" where
  "logged be c = (\<lambda>(s, tr). case be c s of (r, s') \<Rightarrow> (r, (s', tr @ [c])))"

definition write_call :: "string \<Rightarrow> string \<Rightarrow> json list \<Rightarrow> db_call" where
  "write_call tableName mode chunk =
     (if mode = ''skip'' then Upsert tableName chunk True
      else if mode = ''merge'' then Upsert tableName chunk False
      else Insert tableName chunk)"

section \<open>Stand-ins for concrete runs\<close>

text \<open>
  Small backends, a fetch and a parser on which the theorems below are run at concrete
  inputs. \<open>fails_on_call k msg\<close> counts the calls it has received and answers the call
  number \<open>k\<close> (counting from 0) with the error \<open>msg\<close>; \<open>accept_all\<close> reports no error;
  \<open>parse_integer\<close> parses the JSON texts that are integer literals; \<open>three_lines\<close> is a
  resource of three JSON lines and a blank one.
\<close>

definition fails_on_call :: "nat \<Rightarrow> string \<Rightarrow> nat backend" where
  "fails_on_call k msg c n =
     (\<lparr>rdata = JNull, rerror = (if n = k then Some msg else None), rcount = None\<rparr>, Suc n)"

definition accept_all :: "unit backend" where
  "accept_all c u = (\<lparr>rdata = JNull, rerror = None, rcount = None\<rparr>, ())"

definition parse_integer :: "string \<Rightarrow> string + json" where
  "parse_integer text =
     (case parseInt (Some text) of None \<Rightarrow> Inl ''Unexpected token'' | Some n \<Rightarrow> Inr (JNum n))"

definition three_lines :: "json \<Rightarrow> string + fetch_response" where
  "three_lines url =
     Inr \<lparr>ok = True, http_status = 200, statusText = ''OK'',
          body_lines = [''1'', '' 2 '', '''', ''3'']\<rparr>"

definition blank_request :: request where
  "blank_request =
     \<lparr>headers = Map.empty, query = Map.empty, params = Map.empty, body = None, user = None\<rparr>"

definition items_and_fileUrl :: request where
  "items_and_fileUrl =
     blank_request\<lparr>body := Some (JObj [(''items'', JArr [JNum 7]),
                                        (''fileUrl'', JStr ''http://example.org/movies.ndjson'')])\<rparr>"

text \<open>
  \<open>empty_table\<close> answers as a store whose tables hold no row: a range is empty with
  count 0, a single-row lookup is an error, and an update matches nothing, which the store
  reports as an empty list of rows without an error. \<open>rename_movie_1\<close> is the request
  \<^verbatim>\<open>PUT /api/movies/1\<close> with the body \<^verbatim>\<open>{"title": "X"}\<close>, and \<open>one_movie\<close> a store
  that holds the one row with id 1.
\<close>

definition empty_table :: "unit backend" where
  "empty_table c u =
     (case c of
        SelectRange t m p frm to \<Rightarrow> (\<lparr>rdata = JArr [], rerror = None, rcount = Some 0\<rparr>, ())
      | SelectSingle t i \<Rightarrow>
          (\<lparr>rdata = JNull, rerror = Some ''JSON object requested, multiple (or no) rows returned'',
            rcount = None\<rparr>, ())
      | Update t b i \<Rightarrow> (\<lparr>rdata = JArr [], rerror = None, rcount = None\<rparr>, ())
      | _ \<Rightarrow> (\<lparr>rdata = JNull, rerror = Some ''not supported'', rcount = None\<rparr>, ()))"

definition rename_movie_1 :: request where
  "rename_movie_1 =
     blank_request\<lparr>params := [''id'' \<mapsto> ''1''], body := Some (JObj [(''title'', JStr ''X'')])\<rparr>"

definition one_movie :: "unit backend" where
  "one_movie c u =
     (case c of
        Update t b i \<Rightarrow>
          (if i = Some ''1''
           then \<lparr>rdata = JArr [JObj [(''id'', JNum 1), (''title'', JStr ''X'')]], rerror = None,
                  rcount = None\<rparr>
           else \<lparr>rdata = JArr [], rerror = None, rcount = None\<rparr>, ())
      | SelectSingle t i \<Rightarrow>
          (if i = JStr ''1'' \<or> i = JNum 1
           then \<lparr>rdata = JObj [(''id'', JNum 1), (''title'', JStr ''Heat'')], rerror = None,
                  rcount = None\<rparr>
           else \<lparr>rdata = JNull,
                  rerror = Some ''JSON object requested, multiple (or no) rows returned'',
                  rcount = None\<rparr>, ())
      | _ \<Rightarrow> (\<lparr>rdata = JNull, rerror = Some ''not supported'', rcount = None\<rparr>, ()))"

text \<open>
  \<open>verify_good_token\<close> stands for \<^verbatim>\<open>jwt.verify\<close> in the concrete runs: it accepts the
  one token \<^verbatim>\<open>good\<close> under the secret \<^verbatim>\<open>k\<close> and decodes it to a fixed payload.
\<close>

definition verify_good_token :: "string option \<Rightarrow> string option \<Rightarrow> string + json" where
  "verify_good_token token secret =
     (if token = Some ''good'' \<and> secret = Some ''k''
      then Inr (JObj [(''sub'', JStr ''admin'')])
      else if token = None then Inl ''jwt must be provided''
      else Inl ''invalid token'')"

definition empty_authorization :: request where
  "empty_authorization = blank_request\<lparr>headers := [''authorization'' \<mapsto> '''']\<rparr>"

text \<open>
  \<open>serves_rows rows\<close> answers a range query from the list \<open>rows\<close> (the table in the
  order of the query): the rows at the offsets \<open>from\<close> to \<open>to\<close>, both included, with the
  exact count of the table.
\<close>

definition serves_rows :: "json list \<Rightarrow> unit backend" where
  "serves_rows rows c u =
     (case c of
        SelectRange t m p frm to \<Rightarrow>
          (\<lparr>rdata = JArr (take (nat (to - frm + 1)) (drop (nat frm) rows)), rerror = None,
            rcount = Some (int (length rows))\<rparr>, ())
      | _ \<Rightarrow> (\<lparr>rdata = JNull, rerror = Some ''not supported'', rcount = None\<rparr>, ()))"

text \<open>
  \<open>route_position rs h\<close> is the place of the first route of \<open>rs\<close> whose handler is \<open>h\<close>,
  counting from 0.
\<close>

definition route_position :: "route list \<Rightarrow> route_id \<Rightarrow> nat" where
  "route_position rs h = length (takeWhile (\<lambda>r. snd (snd r) \<noteq> h) rs)"

text \<open>
  \<open>search_id_and_q\<close> is the request \<^verbatim>\<open>GET /api/movies/search?id=%201%20&q=Matrix\<close>,
  with both parameters non-blank, and \<open>search_id_and_repeated_q\<close> the request
  \<^verbatim>\<open>GET /api/movies/search?id=1&q=Heat&q=Matrix\<close>, where \<^verbatim>\<open>q\<close> is given twice.
\<close>

definition search_id_and_q :: request where
  "search_id_and_q =
     blank_request\<lparr>query := [''id'' \<mapsto> QStr '' 1 '', ''q'' \<mapsto> QStr ''Matrix'']\<rparr>"

definition search_id_and_repeated_q :: request where
  "search_id_and_repeated_q =
     blank_request\<lparr>query := [''id'' \<mapsto> QStr ''1'',
                                 ''q'' \<mapsto> QArr [QStr ''Heat'', QStr ''Matrix'']]\<rparr>"

text \<open>
  \<open>single_string v\<close> holds of a query parameter that is absent or given once, as a string.
\<close>

definition single_string :: "qvalue option \<Rightarrow> bool" where
  "single_string v = (case v of None \<Rightarrow> True | Some (QStr text) \<Rightarrow> True | Some _ \<Rightarrow> False)"

section \<open>Properties of the chunking utility\<close>

lemma chunks_of_Nil [simp]: "chunks_of n [] = []"
  by (simp add: chunks_of.simps)

lemma chunks_of_step:
  "0 < n \<Longrightarrow> xs \<noteq> [] \<Longrightarrow> chunks_of n xs = take n xs # chunks_of n (drop n xs)"
  by (subst chunks_of.simps) simp

lemma concat_chunks_of: "0 < n \<Longrightarrow> concat (chunks_of n xs) = xs"
proof (induction n xs rule: chunks_of.induct)
  case (1 n xs)
  show ?case
  proof (cases "xs = []")
    case True
    then show ?thesis by simp
  next
    case False
    with 1 show ?thesis by (simp add: chunks_of_step)
  qed
qed

lemma nth_chunks_of:
  "0 < n \<Longrightarrow> k < length (chunks_of n xs) \<Longrightarrow> chunks_of n xs ! k = take n (drop (k * n) xs)"
proof (induction n xs arbitrary: k rule: chunks_of.induct)
  case (1 n xs)
  from 1(3) have ne: "xs \<noteq> []" by (cases "xs = []") auto
  have step: "chunks_of n xs = take n xs # chunks_of n (drop n xs)"
    using 1(2) ne by (rule chunks_of_step)
  show ?case
  proof (cases k)
    case 0
    then show ?thesis by (simp add: step)
  next
    case (Suc j)
    with 1(3) step have "j < length (chunks_of n (drop n xs))" by simp
    with 1(1) 1(2) ne have "chunks_of n (drop n xs) ! j = take n (drop (j * n) (drop n xs))"
      by simp
    with Suc show ?thesis by (simp add: step add.commute)
  qed
qed

lemma chunk_length_le: "0 < n \<Longrightarrow> c \<in> set (chunks_of n xs) \<Longrightarrow> length c \<le> n"
  by (auto simp: in_set_conv_nth nth_chunks_of)

lemma chunk_length_full:
  "0 < n \<Longrightarrow> Suc k < length (chunks_of n xs) \<Longrightarrow> length (chunks_of n xs ! k) = n"
proof (induction n xs arbitrary: k rule: chunks_of.induct)
  case (1 n xs)
  from 1(3) have ne: "xs \<noteq> []" by (cases "xs = []") auto
  have step: "chunks_of n xs = take n xs # chunks_of n (drop n xs)"
    using 1(2) ne by (rule chunks_of_step)
  from 1(3) step have rest: "k < length (chunks_of n (drop n xs))" by simp
  then have "drop n xs \<noteq> []" by (cases "drop n xs = []") auto
  then have long: "n < length xs" by simp
  show ?case
  proof (cases k)
    case 0
    with long show ?thesis by (simp add: step)
  next
    case (Suc j)
    with 1(3) step have "Suc j < length (chunks_of n (drop n xs))" by simp
    with 1(1) 1(2) ne have "length (chunks_of n (drop n xs) ! j) = n" by simp
    with Suc show ?thesis by (simp add: step)
  qed
qed

lemma slice_chunk:
  assumes "0 < sz" and "0 \<le> i" and "i < int (length xs)"
  shows "slice xs i (i + sz) = take (nat sz) (drop (nat i) xs)"
proof (cases "i + sz \<le> int (length xs)")
  case True
  with assms show ?thesis by (simp add: slice_def min_def)
next
  case False
  with assms have "slice xs i (i + sz) = take (nat (int (length xs) - i)) (drop (nat i) xs)"
    by (simp add: slice_def min_def)
  also have "\<dots> = drop (nat i) xs" using assms by simp
  also have "\<dots> = take (nat sz) (drop (nat i) xs)" using False assms by simp
  finally show ?thesis .
qed

lemma chunkArray_loop_positive:
  assumes "0 < sz" and "0 \<le> i"
  shows "chunkArray_loop array sz i result
           = Some (result @ chunks_of (nat sz) (drop (nat i) array))"
  using assms(2)
proof (induction "length array - nat i" arbitrary: i result rule: less_induct)
  case less
  show ?case
  proof (cases "i < int (length array)")
    case False
    with less.prems show ?thesis by (subst chunkArray_loop.simps) simp
  next
    case True
    with less.prems have ne: "drop (nat i) array \<noteq> []" by simp
    have smaller: "length array - nat (i + sz) < length array - nat i"
      using True less.prems assms(1) by linarith
    have next_ok: "0 \<le> i + sz" using less.prems assms(1) by simp
    have "chunkArray_loop array sz i result
            = chunkArray_loop array sz (i + sz) (result @ [slice array i (i + sz)])"
      using True by (subst chunkArray_loop.simps) simp
    also have "\<dots> = Some ((result @ [slice array i (i + sz)])
                          @ chunks_of (nat sz) (drop (nat (i + sz)) array))"
      using smaller next_ok by (rule less.hyps)
    also have "drop (nat (i + sz)) array = drop (nat sz) (drop (nat i) array)"
      using less.prems assms(1) by (simp add: nat_add_distrib add.commute)
    also have "slice array i (i + sz) = take (nat sz) (drop (nat i) array)"
      using assms(1) less.prems True by (rule slice_chunk)
    finally show ?thesis using ne assms(1) by (simp add: chunks_of_step)
  qed
qed

lemma chunkArray_positive: "0 < sz \<Longrightarrow> chunkArray array sz = Some (chunks_of (nat sz) array)"
  by (simp add: chunkArray_def chunkArray_loop_positive)

lemma chunkArray_loop_stuck:
  assumes "chunkArray_loop array sz i result = Some y"
  shows "\<not> (sz \<le> 0 \<and> i \<le> 0 \<and> array \<noteq> [])"
proof (rule chunkArray_loop.raw_induct[OF _ assms])
  fix f and array :: "'a list" and sz i result y
  assume IH: "\<And>array sz i result y.
      f array sz i result = Some y \<Longrightarrow> \<not> (sz \<le> 0 \<and> i \<le> 0 \<and> array \<noteq> [])"
    and eq: "(if i < int (length array)
      then f array sz (i + sz) (result @ [slice array i (i + sz)])
      else Some result) = Some y"
  show "\<not> (sz \<le> 0 \<and> i \<le> 0 \<and> array \<noteq> [])"
  proof
    assume a: "sz \<le> 0 \<and> i \<le> 0 \<and> array \<noteq> []"
    then have "i < int (length array)" by (cases array) auto
    with eq have "f array sz (i + sz) (result @ [slice array i (i + sz)]) = Some y" by simp
    then have "\<not> (sz \<le> 0 \<and> i + sz \<le> 0 \<and> array \<noteq> [])" by (rule IH)
    with a show False by simp
  qed
qed

lemma chunkArray_nonpositive:
  "sz \<le> 0 \<Longrightarrow> chunkArray array sz = (if array = [] then Some [] else None)"
proof (cases "array = []")
  case True
  have "chunkArray_loop ([] :: 'a list) sz 0 [] = Some []"
    by (subst chunkArray_loop.simps) simp
  with True show ?thesis by (simp add: chunkArray_def)
next
  case False
  assume "sz \<le> 0"
  with False chunkArray_loop_stuck[of array sz 0 "[]"] show ?thesis
    by (cases "chunkArray array sz") (auto simp: chunkArray_def)
qed

text \<open>
  Claim C1. For every array and every positive integer size, \<^verbatim>\<open>chunkArray\<close> returns,
  and concatenating the chunks it returns gives back the array; the chunk at position
  \<open>k\<close> is the run of \<open>size\<close> consecutive elements starting at index \<open>k * size\<close> (so the
  chunks do not overlap and follow the original order); every chunk has at most \<open>size\<close>
  elements, and every chunk but the last has exactly \<open>size\<close>.
\<close>

theorem chunkArray_partition:
  "0 < sz \<Longrightarrow>
     (\<exists>chunks. chunkArray array sz = Some chunks
        \<and> concat chunks = array
        \<and> (\<forall>k < length chunks. chunks ! k = take (nat sz) (drop (k * nat sz) array))
        \<and> (\<forall>c \<in> set chunks. length c \<le> nat sz)
        \<and> (\<forall>k. Suc k < length chunks \<longrightarrow> length (chunks ! k) = nat sz))"
proof -
  assume pos: "0 < sz"
  then have n: "0 < nat sz" by simp
  have "chunkArray array sz = Some (chunks_of (nat sz) array)"
    using pos by (rule chunkArray_positive)
  moreover have "concat (chunks_of (nat sz) array) = array"
    using n by (rule concat_chunks_of)
  moreover have "\<forall>k < length (chunks_of (nat sz) array).
      chunks_of (nat sz) array ! k = take (nat sz) (drop (k * nat sz) array)"
    using n by (simp add: nth_chunks_of)
  moreover have "\<forall>c \<in> set (chunks_of (nat sz) array). length c \<le> nat sz"
    using n by (simp add: chunk_length_le)
  moreover have "\<forall>k. Suc k < length (chunks_of (nat sz) array)
      \<longrightarrow> length (chunks_of (nat sz) array ! k) = nat sz"
    using n by (simp add: chunk_length_full)
  ultimately show ?thesis by blast
qed

theorem chunkArray_partition_witness:
  "chunkArray [1, 2, 3, 4, 5 :: nat] 2 = Some [[1, 2], [3, 4], [5]]
     \<and> concat [[1, 2], [3, 4], [5 :: nat]] = [1, 2, 3, 4, 5]"
proof -
  have run: "chunkArray [1, 2, 3, 4, 5 :: nat] 2 = Some [[1, 2], [3, 4], [5]]"
    by (simp add: chunkArray_def chunkArray_loop.simps slice_def)
  from chunkArray_partition [of 2 "[1, 2, 3, 4, 5 :: nat]"] run
  show ?thesis by simp
qed

text \<open>
  Claim C3, as the code has it. For a size that is zero or negative the loop variable
  never grows, so \<^verbatim>\<open>chunkArray\<close> returns only for the empty array (with no chunk at
  all); for a non-empty array the loop condition \<open>i < array.length\<close> stays true and
  the call never returns.
\<close>

theorem chunkArray_nonpositive_size:
  "sz \<le> 0 \<Longrightarrow> chunkArray array sz = (if array = [] then Some [] else None)"
  by (rule chunkArray_nonpositive)

theorem chunkArray_nonpositive_size_witness:
  "(0::int) \<le> 0 \<and> chunkArray [CHR ''a'', CHR ''b''] 0 = None
     \<and> chunkArray ([] :: char list) (- 3) = Some []"
  using chunkArray_nonpositive_size [of 0 "[CHR ''a'', CHR ''b'']"]
    chunkArray_nonpositive_size [of "- 3" "[] :: char list"]
  by simp

text \<open>
  The claim as the specification words it (the call terminates for every array) fails
  on a one-element array with size 0.
\<close>

theorem chunkArray_zero_size_counterexample:
  "chunkArray [CHR ''a''] 0 = None"
  using chunkArray_nonpositive [of 0 "[CHR ''a'']"] by simp

section \<open>Properties of the bulk insert\<close>

lemma insertChunks_loop_Cons:
  "insertChunks_loop be tableName mode n i (chunk # rest) inserted s =
     (case be (write_call tableName mode chunk) s of (r, s') \<Rightarrow>
        (case rerror r of
           Some msg \<Rightarrow> (\<lparr>error = Some (chunk_failed i n msg), insertedTotal = inserted\<rparr>, s')
         | None \<Rightarrow>
             insertChunks_loop be tableName mode n (i + 1) rest (inserted + length chunk) s'))"
  by (simp add: write_call_def)

lemma run_calls_logged:
  "run_calls (logged be) calls (s, tr) =
     (case run_calls be calls s of (rs, s') \<Rightarrow> (rs, (s', tr @ calls)))"
  by (induction calls arbitrary: s tr) (auto simp: logged_def split: prod.splits)

lemma insertChunks_loop_all_ok:
  "run_calls be (map (write_call tableName mode) chunks) s = (replies, s') \<Longrightarrow>
   \<forall>r \<in> set replies. rerror r = None \<Longrightarrow>
   insertChunks_loop be tableName mode n i chunks inserted s
     = (\<lparr>error = None, insertedTotal = inserted + length (concat chunks)\<rparr>, s')"
proof (induction chunks arbitrary: i inserted s replies s')
  case Nil
  then show ?case by simp
next
  case (Cons chunk rest)
  obtain r s1 where step: "be (write_call tableName mode chunk) s = (r, s1)"
    by (cases "be (write_call tableName mode chunk) s")
  obtain rs s2 where tail: "run_calls be (map (write_call tableName mode) rest) s1 = (rs, s2)"
    by (cases "run_calls be (map (write_call tableName mode) rest) s1")
  from Cons.prems(1) step tail have eqs: "replies = r # rs" "s' = s2" by simp_all
  with Cons.prems(2) have ok: "rerror r = None" "\<forall>x \<in> set rs. rerror x = None" by simp_all
  have "insertChunks_loop be tableName mode n (i + 1) rest (inserted + length chunk) s1
          = (\<lparr>error = None, insertedTotal = inserted + length chunk + length (concat rest)\<rparr>, s2)"
    using tail ok(2) by (rule Cons.IH)
  with step ok(1) eqs(2) show ?case
    by (simp add: insertChunks_loop_Cons del: insertChunks_loop.simps)
qed

lemma insertChunks_loop_fails_at:
  "k < length chunks \<Longrightarrow>
   run_calls be (map (write_call tableName mode) (take (Suc k) chunks)) s = (replies, s') \<Longrightarrow>
   map rerror replies = replicate k None @ [Some msg] \<Longrightarrow>
   insertChunks_loop be tableName mode n i chunks inserted s
     = (\<lparr>error = Some (chunk_failed (i + k) n msg),
         insertedTotal = inserted + length (concat (take k chunks))\<rparr>, s')"
proof (induction chunks arbitrary: k i inserted s replies s')
  case Nil
  then show ?case by simp
next
  case (Cons chunk rest)
  obtain r s1 where step: "be (write_call tableName mode chunk) s = (r, s1)"
    by (cases "be (write_call tableName mode chunk) s")
  show ?case
  proof (cases k)
    case 0
    with Cons.prems(2) step have "replies = [r]" "s' = s1" by auto
    with Cons.prems(3) 0 have "rerror r = Some msg" by simp
    with step 0 \<open>s' = s1\<close> show ?thesis
      by (simp add: insertChunks_loop_Cons del: insertChunks_loop.simps)
  next
    case (Suc j)
    obtain rs s2 where tail:
      "run_calls be (map (write_call tableName mode) (take (Suc j) rest)) s1 = (rs, s2)"
      by (cases "run_calls be (map (write_call tableName mode) (take (Suc j) rest)) s1")
    from Cons.prems(2) Suc step tail have eqs: "replies = r # rs" "s' = s2" by simp_all
    with Cons.prems(3) Suc have ok: "rerror r = None"
      and rest_errs: "map rerror rs = replicate j None @ [Some msg]" by simp_all
    from Cons.prems(1) Suc have "j < length rest" by simp
    then have "insertChunks_loop be tableName mode n (i + 1) rest (inserted + length chunk) s1
          = (\<lparr>error = Some (chunk_failed (i + 1 + j) n msg),
              insertedTotal = inserted + length chunk + length (concat (take j rest))\<rparr>, s2)"
      using tail rest_errs by (rule Cons.IH)
    with step ok eqs(2) Suc show ?thesis
      by (simp add: insertChunks_loop_Cons del: insertChunks_loop.simps)
  qed
qed

text \<open>
  Claim C2, as the code has it. For every table name, every sequence of records, every
  conflict mode and every positive chunk size, \<^verbatim>\<open>insertChunks\<close> returns. If the write
  of the chunk at position \<open>k\<close> (counting from 0) is the first one the backend answers
  with an error, the backend has received the writes of the chunks up to that one and no
  later write, and the result carries the number of records of the \<open>k\<close> chunks written
  before together with the message \<^verbatim>\<open>Chunk k+1/n failed: \<close> followed by the backend's
  error text. If no write fails, every chunk has been written in order and the result is
  the number of input records with no error.
\<close>

theorem insertChunks_stops_at_first_failure:
  assumes "0 < chunkSize"
  shows "\<exists>chunks. chunkArray rows chunkSize = Some chunks \<and> concat chunks = rows
    \<and> (\<forall>k msg replies s'.
          k < length chunks
          \<and> run_calls be (map (write_call tableName mode) (take (Suc k) chunks)) s = (replies, s')
          \<and> map rerror replies = replicate k None @ [Some msg]
          \<longrightarrow> insertChunks (logged be) tableName rows chunkSize mode (s, tr)
               = Some (\<lparr>error = Some (''Chunk '' @ show_nat (k + 1) @ ''/''
                                        @ show_nat (length chunks) @ '' failed: '' @ msg),
                        insertedTotal = length (concat (take k chunks))\<rparr>,
                       (s', tr @ map (write_call tableName mode) (take (Suc k) chunks))))
    \<and> (\<forall>replies s'.
          run_calls be (map (write_call tableName mode) chunks) s = (replies, s')
          \<and> (\<forall>r \<in> set replies. rerror r = None)
          \<longrightarrow> insertChunks (logged be) tableName rows chunkSize mode (s, tr)
               = Some (\<lparr>error = None, insertedTotal = length rows\<rparr>,
                       (s', tr @ map (write_call tableName mode) chunks)))"
proof -
  let ?chunks = "chunks_of (nat chunkSize) rows"
  let ?wc = "write_call tableName mode"
  have split: "chunkArray rows chunkSize = Some ?chunks"
    using assms by (rule chunkArray_positive)
  have whole: "concat ?chunks = rows"
    using assms by (simp add: concat_chunks_of)
  have fail: "insertChunks (logged be) tableName rows chunkSize mode (s, tr)
               = Some (\<lparr>error = Some (''Chunk '' @ show_nat (k + 1) @ ''/''
                                        @ show_nat (length ?chunks) @ '' failed: '' @ msg),
                        insertedTotal = length (concat (take k ?chunks))\<rparr>,
                       (s', tr @ map ?wc (take (Suc k) ?chunks)))"
    if "k < length ?chunks"
      and "run_calls be (map ?wc (take (Suc k) ?chunks)) s = (replies, s')"
      and "map rerror replies = replicate k None @ [Some msg]"
    for k msg replies s'
  proof -
    from that(2) have "run_calls (logged be) (map ?wc (take (Suc k) ?chunks)) (s, tr)
        = (replies, (s', tr @ map ?wc (take (Suc k) ?chunks)))"
      by (simp add: run_calls_logged)
    with that(1) have "insertChunks_loop (logged be) tableName mode (length ?chunks) 0 ?chunks 0 (s, tr)
        = (\<lparr>error = Some (chunk_failed (0 + k) (length ?chunks) msg),
            insertedTotal = 0 + length (concat (take k ?chunks))\<rparr>,
           (s', tr @ map ?wc (take (Suc k) ?chunks)))"
      using that(3) by (rule insertChunks_loop_fails_at)
    then show ?thesis by (simp add: insertChunks_def split chunk_failed_def)
  qed
  have good: "insertChunks (logged be) tableName rows chunkSize mode (s, tr)
               = Some (\<lparr>error = None, insertedTotal = length rows\<rparr>, (s', tr @ map ?wc ?chunks))"
    if "run_calls be (map ?wc ?chunks) s = (replies, s')"
      and "\<forall>r \<in> set replies. rerror r = None"
    for replies s'
  proof -
    from that(1) have "run_calls (logged be) (map ?wc ?chunks) (s, tr)
        = (replies, (s', tr @ map ?wc ?chunks))"
      by (simp add: run_calls_logged)
    then have "insertChunks_loop (logged be) tableName mode (length ?chunks) 0 ?chunks 0 (s, tr)
        = (\<lparr>error = None, insertedTotal = 0 + length (concat ?chunks)\<rparr>, (s', tr @ map ?wc ?chunks))"
      using that(2) by (rule insertChunks_loop_all_ok)
    then show ?thesis by (simp add: insertChunks_def split whole)
  qed
  from split whole fail good show ?thesis by blast
qed

theorem insertChunks_stops_at_first_failure_witness:
  "(0::int) < 2 \<and>
   insertChunks (logged (fails_on_call 1 ''duplicate key'')) ''movies''
       [JNum 1, JNum 2, JNum 3, JNum 4, JNum 5] 2 ''insert'' (0, [])
     = Some (\<lparr>error = Some ''Chunk 2/3 failed: duplicate key'', insertedTotal = 2\<rparr>,
             (2, [Insert ''movies'' [JNum 1, JNum 2], Insert ''movies'' [JNum 3, JNum 4]]))"
proof -
  let ?rows = "[JNum 1, JNum 2, JNum 3, JNum 4, JNum 5]"
  let ?be = "fails_on_call 1 ''duplicate key''"
  have pos: "(0::int) < 2" by simp
  from insertChunks_stops_at_first_failure [OF pos, of ?rows ?be "''movies''" "''insert''" 0 "[]"]
  obtain chunks where
    c: "chunkArray ?rows 2 = Some chunks"
    and f: "\<And>k msg replies s'.
          k < length chunks
          \<and> run_calls ?be (map (write_call ''movies'' ''insert'') (take (Suc k) chunks)) 0 = (replies, s')
          \<and> map rerror replies = replicate k None @ [Some msg]
          \<Longrightarrow> insertChunks (logged ?be) ''movies'' ?rows 2 ''insert'' (0, [])
               = Some (\<lparr>error = Some (''Chunk '' @ show_nat (k + 1) @ ''/''
                                        @ show_nat (length chunks) @ '' failed: '' @ msg),
                        insertedTotal = length (concat (take k chunks))\<rparr>,
                       (s', [] @ map (write_call ''movies'' ''insert'') (take (Suc k) chunks)))"
    by blast
  have "chunkArray ?rows 2 = Some [[JNum 1, JNum 2], [JNum 3, JNum 4], [JNum 5]]"
    by (simp add: chunkArray_def chunkArray_loop.simps slice_def)
  with c have chunks: "chunks = [[JNum 1, JNum 2], [JNum 3, JNum 4], [JNum 5]]" by simp
  have "insertChunks (logged ?be) ''movies'' ?rows 2 ''insert'' (0, [])
               = Some (\<lparr>error = Some (''Chunk '' @ show_nat (1 + 1) @ ''/''
                                        @ show_nat (length chunks) @ '' failed: '' @ ''duplicate key''),
                        insertedTotal = length (concat (take 1 chunks))\<rparr>,
                       (2, [] @ map (write_call ''movies'' ''insert'') (take (Suc 1) chunks)))"
    by (rule f [of 1 "[\<lparr>rdata = JNull, rerror = None, rcount = None\<rparr>,
          \<lparr>rdata = JNull, rerror = Some ''duplicate key'', rcount = None\<rparr>]" 2 "''duplicate key''"])
      (simp add: chunks fails_on_call_def write_call_def)
  then show ?thesis
    by (simp add: chunks write_call_def show_nat.simps)
qed

text \<open>
  The claim as the specification words it, for every chunk size, fails at chunk size 0:
  on a single record and a backend that reports no error, the chunking never ends and
  \<^verbatim>\<open>insertChunks\<close> does not return. The routes never pass such a size: the bulk-upload
  handler takes \<^verbatim>\<open>Math.max(1, ...)\<close> and the default is 30.
\<close>

theorem insertChunks_zero_chunk_size_counterexample:
  "insertChunks (logged accept_all) ''movies'' [JNum 1] 0 ''skip'' ((), []) = None"
  using chunkArray_nonpositive [of 0 "[JNum 1]"] by (simp add: insertChunks_def)

section \<open>Properties of the streaming ingest\<close>







section \<open>Properties of the bulk-upload route\<close>

lemma array_case_other:
  "\<not> isArray v \<Longrightarrow> (case v of Some (JArr rows) \<Rightarrow> f rows | _ \<Rightarrow> g) = g"
  by (cases v) (auto simp: isArray_def split: json.splits)

lemma two_shapes_items:
  assumes "1 < shapes_present req"
  shows "\<not> isArray (body req)
     \<and> (\<exists>rows. get_prop (or_empty_object (body req)) ''items'' = Some (JArr rows))"
proof -
  have "shapes_present req \<le> 1" if "isArray (body req)"
  proof -
    from that obtain xs where "body req = Some (JArr xs)"
      by (auto simp: isArray_def split: option.splits json.splits)
    then show ?thesis
      by (simp add: shapes_present_def or_empty_object_def truthy_def get_prop_def isArray_def)
  qed
  with assms have no_array: "\<not> isArray (body req)" by auto
  with assms have "isArray (get_prop (or_empty_object (body req)) ''items'')"
    by (simp add: shapes_present_def split: if_splits)
  then have "\<exists>rows. get_prop (or_empty_object (body req)) ''items'' = Some (JArr rows)"
    by (auto simp: isArray_def split: option.splits json.splits)
  with no_array show ?thesis by simp
qed

lemma bulk_upload_items:
  assumes "\<not> isArray (body req)"
    and "get_prop (or_empty_object (body req)) ''items'' = Some (JArr rows)"
  shows "bulk_upload_handler be fetch parse tableName req s
     = (let chunkSize = max 1 (num_or (parseInt (map_option to_string (query req ''chunkSize''))) 30) in
        case insertChunks be tableName rows chunkSize ''skip'' s of
          None \<Rightarrow> None
        | Some (res, s') \<Rightarrow>
           (case error res of
              Some e \<Rightarrow> Some (\<lparr>status = 400, json_body = json_error e\<rparr>, s')
            | None \<Rightarrow>
               Some (\<lparr>status = 200, json_body = json_message
                       (inserted_message (insertedTotal res) tableName chunkSize)\<rparr>, s')))"
  unfolding bulk_upload_handler_def Let_def
  by (subst array_case_other [OF assms(1)]) (simp add: assms(2))

lemma insertChunks_returns:
  "0 < chunkSize \<Longrightarrow> \<exists>res s'. insertChunks be tableName rows chunkSize mode s = Some (res, s')"
  by (cases "insertChunks_loop be tableName mode (length (chunks_of (nat chunkSize) rows)) 0
               (chunks_of (nat chunkSize) rows) 0 s")
    (simp add: insertChunks_def chunkArray_positive)

text \<open>
  Claim C5, as the code has it. A request to the bulk-upload route (past the auth
  middleware) that carries none of the three input shapes is answered with the 400
  error and reaches neither the backend nor the network. A request that carries more
  than one shape is not rejected for that: it then has an \<^verbatim>\<open>items\<close> array, the rows of
  that array are inserted in skip mode with the chunk size of the request, and the
  response is the one of that insertion: status 200 with the number of inserted records
  when \<^verbatim>\<open>insertChunks\<close> reports no error, status 400 with its error otherwise. The
  request is processed exactly as the one whose body holds that \<^verbatim>\<open>items\<close> array alone,
  whatever \<^verbatim>\<open>fileUrl\<close> says and whatever a fetch would return.
\<close>

theorem bulk_upload_shape_precedence:
  "(shapes_present req = 0 \<longrightarrow>
      bulk_upload_handler be fetch parse tableName req s
        = Some (\<lparr>status = 400, json_body = json_error
            ''Provide either an array body, { items: [...] }, or { fileUrl } pointing to NDJSON''\<rparr>, s))
   \<and> (1 < shapes_present req \<longrightarrow>
        (\<exists>rows res s'.
           get_prop (or_empty_object (body req)) ''items'' = Some (JArr rows)
           \<and> insertChunks be tableName rows
                (max 1 (num_or (parseInt (map_option to_string (query req ''chunkSize''))) 30))
                ''skip'' s = Some (res, s')
           \<and> bulk_upload_handler be fetch parse tableName req s
               = Some ((case error res of
                          Some e \<Rightarrow> \<lparr>status = 400, json_body = json_error e\<rparr>
                        | None \<Rightarrow>
                            \<lparr>status = 200, json_body = json_message
                               (inserted_message (insertedTotal res) tableName
                                  (max 1 (num_or (parseInt (map_option to_string
                                     (query req ''chunkSize''))) 30)))\<rparr>), s')
           \<and> bulk_upload_handler be fetch parse tableName req s
               = bulk_upload_handler be fetch' parse' tableName
                   (req\<lparr>body := Some (JObj [(''items'', JArr rows)])\<rparr>) s))"
proof (intro conjI impI)
  assume none: "shapes_present req = 0"
  then have a: "\<not> isArray (body req)"
    and b: "\<not> isArray (get_prop (or_empty_object (body req)) ''items'')"
    and c: "\<not> truthy (get_prop (or_empty_object (body req)) ''fileUrl'')"
    by (simp_all add: shapes_present_def split: if_splits)
  show "bulk_upload_handler be fetch parse tableName req s
        = Some (\<lparr>status = 400, json_body = json_error
            ''Provide either an array body, { items: [...] }, or { fileUrl } pointing to NDJSON''\<rparr>, s)"
    unfolding bulk_upload_handler_def Let_def
    by (subst array_case_other [OF a], subst array_case_other [OF b]) (simp add: c)
next
  assume "1 < shapes_present req"
  then obtain rows where no_array: "\<not> isArray (body req)"
    and items: "get_prop (or_empty_object (body req)) ''items'' = Some (JArr rows)"
    using two_shapes_items by blast
  let ?size = "max 1 (num_or (parseInt (map_option to_string (query req ''chunkSize''))) 30)"
  let ?req' = "req\<lparr>body := Some (JObj [(''items'', JArr rows)])\<rparr>"
  have "0 < ?size" by simp
  then have "\<exists>res s'. insertChunks be tableName rows ?size ''skip'' s = Some (res, s')"
    by (rule insertChunks_returns)
  then obtain res s' where ins: "insertChunks be tableName rows ?size ''skip'' s = Some (res, s')"
    by blast
  have outcome: "bulk_upload_handler be fetch parse tableName req s
      = Some ((case error res of
                 Some e \<Rightarrow> \<lparr>status = 400, json_body = json_error e\<rparr>
               | None \<Rightarrow>
                   \<lparr>status = 200, json_body = json_message
                      (inserted_message (insertedTotal res) tableName ?size)\<rparr>), s')"
    by (simp add: bulk_upload_items [OF no_array items] Let_def ins split: option.splits)
  have no_array': "\<not> isArray (body ?req')" by (simp add: isArray_def)
  have items': "get_prop (or_empty_object (body ?req')) ''items'' = Some (JArr rows)"
    by (simp add: or_empty_object_def truthy_def get_prop_def)
  have same: "bulk_upload_handler be fetch parse tableName req s
          = bulk_upload_handler be fetch' parse' tableName ?req' s"
    by (simp add: bulk_upload_items [OF no_array items] bulk_upload_items [OF no_array' items'])
  from items ins outcome same
  show "\<exists>rows res s'.
           get_prop (or_empty_object (body req)) ''items'' = Some (JArr rows)
           \<and> insertChunks be tableName rows ?size ''skip'' s = Some (res, s')
           \<and> bulk_upload_handler be fetch parse tableName req s
               = Some ((case error res of
                          Some e \<Rightarrow> \<lparr>status = 400, json_body = json_error e\<rparr>
                        | None \<Rightarrow>
                            \<lparr>status = 200, json_body = json_message
                               (inserted_message (insertedTotal res) tableName ?size)\<rparr>), s')
           \<and> bulk_upload_handler be fetch parse tableName req s
               = bulk_upload_handler be fetch' parse' tableName
                   (req\<lparr>body := Some (JObj [(''items'', JArr rows)])\<rparr>) s"
    by blast
qed

theorem bulk_upload_shape_precedence_witness:
  "shapes_present blank_request = 0
   \<and> bulk_upload_handler (logged accept_all) three_lines parse_integer ''movies'' blank_request ((), [])
        = Some (\<lparr>status = 400, json_body = json_error
            ''Provide either an array body, { items: [...] }, or { fileUrl } pointing to NDJSON''\<rparr>,
          ((), []))
   \<and> 1 < shapes_present items_and_fileUrl
   \<and> bulk_upload_handler (logged accept_all) three_lines parse_integer ''movies''
        items_and_fileUrl ((), [])
      = Some (\<lparr>status = 200, json_body = json_message
                  ''Inserted 1 records into movies in chunks of 30''\<rparr>,
              ((), [Upsert ''movies'' [JNum 7] True]))
   \<and> bulk_upload_handler (logged accept_all) three_lines parse_integer ''movies''
        items_and_fileUrl ((), [])
      = bulk_upload_handler (logged accept_all) (\<lambda>url. Inl ''not reached'') parse_integer ''movies''
          (items_and_fileUrl\<lparr>body := Some (JObj [(''items'', JArr [JNum 7])])\<rparr>) ((), [])"
proof -
  let ?be = "logged accept_all"
  have none: "shapes_present blank_request = 0"
    by (simp add: shapes_present_def blank_request_def isArray_def or_empty_object_def
        get_prop_def truthy_def)
  have two: "1 < shapes_present items_and_fileUrl"
    by (simp add: shapes_present_def items_and_fileUrl_def blank_request_def isArray_def
        or_empty_object_def get_prop_def truthy_def)
  have items: "get_prop (or_empty_object (body items_and_fileUrl)) ''items'' = Some (JArr [JNum 7])"
    by (simp add: items_and_fileUrl_def blank_request_def or_empty_object_def get_prop_def
        truthy_def)
  have size: "max 1 (num_or (parseInt (map_option to_string (query items_and_fileUrl ''chunkSize''))) 30)
      = 30"
    by (simp add: items_and_fileUrl_def blank_request_def parseInt_def num_or_def)
  have "chunkArray [JNum 7] 30 = Some [[JNum 7]]"
    by (simp add: chunkArray_def chunkArray_loop.simps slice_def)
  then have ins: "insertChunks ?be ''movies'' [JNum 7] 30 ''skip'' ((), [])
      = Some (\<lparr>error = None, insertedTotal = 1\<rparr>, ((), [Upsert ''movies'' [JNum 7] True]))"
    by (simp add: insertChunks_def logged_def accept_all_def)
  from none bulk_upload_shape_precedence [of blank_request ?be three_lines
      parse_integer "''movies''" "((), [])"]
  have first: "bulk_upload_handler ?be three_lines parse_integer ''movies'' blank_request ((), [])
        = Some (\<lparr>status = 400, json_body = json_error
            ''Provide either an array body, { items: [...] }, or { fileUrl } pointing to NDJSON''\<rparr>,
          ((), []))"
    by simp
  from two bulk_upload_shape_precedence [of items_and_fileUrl ?be three_lines
      parse_integer "''movies''" "((), [])" "\<lambda>url. Inl ''not reached''" parse_integer]
  obtain rows res s' where
    r: "get_prop (or_empty_object (body items_and_fileUrl)) ''items'' = Some (JArr rows)"
    and i: "insertChunks ?be ''movies'' rows
        (max 1 (num_or (parseInt (map_option to_string (query items_and_fileUrl ''chunkSize''))) 30))
        ''skip'' ((), []) = Some (res, s')"
    and out: "bulk_upload_handler ?be three_lines parse_integer ''movies'' items_and_fileUrl ((), [])
        = Some ((case error res of
                   Some e \<Rightarrow> \<lparr>status = 400, json_body = json_error e\<rparr>
                 | None \<Rightarrow>
                     \<lparr>status = 200, json_body = json_message
                        (inserted_message (insertedTotal res) ''movies''
                           (max 1 (num_or (parseInt (map_option to_string
                              (query items_and_fileUrl ''chunkSize''))) 30)))\<rparr>), s')"
    and same: "bulk_upload_handler ?be three_lines parse_integer ''movies'' items_and_fileUrl ((), [])
        = bulk_upload_handler ?be (\<lambda>url. Inl ''not reached'') parse_integer ''movies''
            (items_and_fileUrl\<lparr>body := Some (JObj [(''items'', JArr rows)])\<rparr>) ((), [])"
    by blast
  from r items have rows: "rows = [JNum 7]" by simp
  from i rows size ins have res: "res = \<lparr>error = None, insertedTotal = 1\<rparr>"
    and s': "s' = ((), [Upsert ''movies'' [JNum 7] True])" by simp_all
  from out res s' size
  have second: "bulk_upload_handler ?be three_lines parse_integer ''movies'' items_and_fileUrl ((), [])
      = Some (\<lparr>status = 200, json_body = json_message
                  ''Inserted 1 records into movies in chunks of 30''\<rparr>,
              ((), [Upsert ''movies'' [JNum 7] True]))"
    by (simp add: inserted_message_def show_nat.simps show_int_def)
  from none first two second same rows show ?thesis by simp
qed

text \<open>
  The claim as the specification words it fails on a body with both \<^verbatim>\<open>items\<close> and
  \<^verbatim>\<open>fileUrl\<close>: two shapes are present, the record of \<^verbatim>\<open>items\<close> is written and the
  response is a success.
\<close>

theorem bulk_upload_two_shapes_counterexample:
  "shapes_present items_and_fileUrl = 2
   \<and> bulk_upload_handler (logged accept_all) three_lines parse_integer ''movies''
        items_and_fileUrl ((), [])
      = Some (\<lparr>status = 200, json_body = json_message
                  ''Inserted 1 records into movies in chunks of 30''\<rparr>,
              ((), [Upsert ''movies'' [JNum 7] True]))"
proof -
  have "shapes_present items_and_fileUrl = 2"
    by (simp add: shapes_present_def items_and_fileUrl_def blank_request_def isArray_def
        or_empty_object_def get_prop_def truthy_def)
  moreover have "chunkArray [JNum 7] 30 = Some [[JNum 7]]"
    by (simp add: chunkArray_def chunkArray_loop.simps slice_def)
  then have "bulk_upload_handler (logged accept_all) three_lines parse_integer ''movies''
        items_and_fileUrl ((), [])
      = Some (\<lparr>status = 200, json_body = json_message
                  ''Inserted 1 records into movies in chunks of 30''\<rparr>,
              ((), [Upsert ''movies'' [JNum 7] True]))"
    by (simp add: bulk_upload_handler_def items_and_fileUrl_def blank_request_def
        or_empty_object_def get_prop_def truthy_def parseInt_def num_or_def insertChunks_def
        logged_def accept_all_def inserted_message_def show_nat.simps show_int_def)
  ultimately show ?thesis by simp
qed

section \<open>Properties of the update route\<close>

text \<open>
  Claim C6, as the code has it. The handler of the Update route looks only at the error
  of the backend's reply. Its response is the 400 error exactly when the backend reports
  an error, and it is never 404. When the backend reports no error and returns rows, the
  response is the first of them, the updated row; when it reports no error and returns no
  row, as for an id that matches nothing, the response is a 200 with no body.
\<close>

theorem update_handler_follows_backend_error:
  "be (Update tableName (body req) (params req ''id'')) s = (r, s') \<Longrightarrow>
     (status (fst (update_handler be tableName req s)) = 400 \<longleftrightarrow> rerror r \<noteq> None)
   \<and> status (fst (update_handler be tableName req s)) \<noteq> 404
   \<and> (\<forall>msg. rerror r = Some msg \<longrightarrow>
         update_handler be tableName req s = (\<lparr>status = 400, json_body = json_error msg\<rparr>, s'))
   \<and> (\<forall>row more. rerror r = None \<and> rdata r = JArr (row # more) \<longrightarrow>
         update_handler be tableName req s = (\<lparr>status = 200, json_body = Some row\<rparr>, s'))
   \<and> (rerror r = None \<and> rdata r = JArr [] \<longrightarrow>
         update_handler be tableName req s = (\<lparr>status = 200, json_body = None\<rparr>, s'))"
  by (cases "rerror r"; cases "first_element (rdata r)")
    (auto simp: update_handler_def first_element_def)

theorem update_handler_follows_backend_error_witness:
  "update_handler one_movie ''movies'' rename_movie_1 ()
     = (\<lparr>status = 200, json_body = Some (JObj [(''id'', JNum 1), (''title'', JStr ''X'')])\<rparr>, ())"
proof -
  have "one_movie (Update ''movies'' (body rename_movie_1) (params rename_movie_1 ''id'')) ()
      = (\<lparr>rdata = JArr [JObj [(''id'', JNum 1), (''title'', JStr ''X'')]], rerror = None,
           rcount = None\<rparr>, ())"
    by (simp add: one_movie_def rename_movie_1_def blank_request_def)
  from update_handler_follows_backend_error [where be = one_movie and tableName = "''movies''"
      and req = rename_movie_1 and s = "()", OF this]
  show ?thesis by simp
qed

text \<open>
  The claim as the specification words it fails when the backend finds no row for the id
  and, as a store does for an update that matches nothing, reports no error: the response
  is then a success without a body, not a 400.
\<close>

theorem update_unmatched_id_counterexample:
  "update_handler empty_table ''movies'' rename_movie_1 ()
     = (\<lparr>status = 200, json_body = None\<rparr>, ())"
  by (simp add: update_handler_def empty_table_def first_element_def)

section \<open>Properties of the auth middleware\<close>

text \<open>
  Claim C7, as the code has it. A request whose Authorization header is absent or empty
  is rejected with 401 Unauthorized. When the header is not empty, the token is the second
  of the pieces the header splits into at spaces: if its verification against the secret
  fails the request is rejected with 403 Forbidden, and if it succeeds the decoded claims
  are attached to the request as \<^verbatim>\<open>req.user\<close> and the request goes on to the handler.
\<close>

theorem authMiddleware_outcomes:
  "(headers req ''authorization'' = None \<or> headers req ''authorization'' = Some []
      \<longrightarrow> authMiddleware jwt_verify secret req
            = Inl \<lparr>status = 401, json_body = Some (JObj [(''error'', JStr ''Unauthorized'')])\<rparr>)
   \<and> (\<forall>h err. headers req ''authorization'' = Some h \<and> h \<noteq> []
          \<and> jwt_verify (nth_opt (split_on CHR '' '' h) 1) secret = Inl err
      \<longrightarrow> authMiddleware jwt_verify secret req
            = Inl \<lparr>status = 403, json_body = Some (JObj [(''error'', JStr ''Forbidden'')])\<rparr>)
   \<and> (\<forall>h decoded. headers req ''authorization'' = Some h \<and> h \<noteq> []
          \<and> jwt_verify (nth_opt (split_on CHR '' '' h) 1) secret = Inr decoded
      \<longrightarrow> authMiddleware jwt_verify secret req = Inr (req\<lparr>user := Some decoded\<rparr>))"
  by (auto simp: authMiddleware_def json_error_def)

theorem authMiddleware_outcomes_witness:
  "authMiddleware verify_good_token (Some ''k'') blank_request
     = Inl \<lparr>status = 401, json_body = Some (JObj [(''error'', JStr ''Unauthorized'')])\<rparr>
   \<and> authMiddleware verify_good_token (Some ''k'')
        (blank_request\<lparr>headers := [''authorization'' \<mapsto> ''Bearer expired'']\<rparr>)
     = Inl \<lparr>status = 403, json_body = Some (JObj [(''error'', JStr ''Forbidden'')])\<rparr>
   \<and> authMiddleware verify_good_token (Some ''k'')
        (blank_request\<lparr>headers := [''authorization'' \<mapsto> ''Bearer good'']\<rparr>)
     = Inr (blank_request\<lparr>headers := [''authorization'' \<mapsto> ''Bearer good''],
                           user := Some (JObj [(''sub'', JStr ''admin'')])\<rparr>)"
proof -
  let ?bad = "blank_request\<lparr>headers := [''authorization'' \<mapsto> ''Bearer expired'']\<rparr>"
  let ?good = "blank_request\<lparr>headers := [''authorization'' \<mapsto> ''Bearer good'']\<rparr>"
  have no_header: "headers blank_request ''authorization'' = None"
    by (simp add: blank_request_def)
  have bad: "headers ?bad ''authorization'' = Some ''Bearer expired'' \<and> ''Bearer expired'' \<noteq> []
      \<and> verify_good_token (nth_opt (split_on CHR '' '' ''Bearer expired'') 1) (Some ''k'')
          = Inl ''invalid token''"
    by (simp add: verify_good_token_def nth_opt_def)
  have good: "headers ?good ''authorization'' = Some ''Bearer good'' \<and> ''Bearer good'' \<noteq> []
      \<and> verify_good_token (nth_opt (split_on CHR '' '' ''Bearer good'') 1) (Some ''k'')
          = Inr (JObj [(''sub'', JStr ''admin'')])"
    by (simp add: verify_good_token_def nth_opt_def)
  from no_header authMiddleware_outcomes [of blank_request verify_good_token "Some ''k''"]
  have first: "authMiddleware verify_good_token (Some ''k'') blank_request
     = Inl \<lparr>status = 401, json_body = Some (JObj [(''error'', JStr ''Unauthorized'')])\<rparr>"
    by blast
  from bad authMiddleware_outcomes [of ?bad verify_good_token "Some ''k''"]
  have second: "authMiddleware verify_good_token (Some ''k'') ?bad
     = Inl \<lparr>status = 403, json_body = Some (JObj [(''error'', JStr ''Forbidden'')])\<rparr>"
    by blast
  from good authMiddleware_outcomes [of ?good verify_good_token "Some ''k''"]
  have third: "authMiddleware verify_good_token (Some ''k'') ?good
     = Inr (?good\<lparr>user := Some (JObj [(''sub'', JStr ''admin'')])\<rparr>)"
    by blast
  from first second third show ?thesis by simp
qed

text \<open>
  The claim as the specification words it fails on a header that is present but empty:
  no token can be verified, and the response is 401 Unauthorized, not 403 Forbidden.
\<close>

theorem authMiddleware_empty_header_counterexample:
  "headers empty_authorization ''authorization'' = Some ''''
   \<and> verify_good_token (nth_opt (split_on CHR '' '' '''') 1) (Some ''k'') = Inl ''jwt must be provided''
   \<and> authMiddleware verify_good_token (Some ''k'') empty_authorization
       = Inl \<lparr>status = 401, json_body = Some (JObj [(''error'', JStr ''Unauthorized'')])\<rparr>"
  by (simp add: empty_authorization_def blank_request_def authMiddleware_def json_error_def
      verify_good_token_def nth_opt_def)

section \<open>Properties of the list route\<close>

lemma ceil_div_ceiling: "ceil_div a 30 = \<lceil>real_of_int a / 30\<rceil>"
proof -
  have "\<lceil>real_of_int a / real_of_int 30\<rceil> = - (- a div 30)"
    by (rule ceiling_divide_eq_div)
  then show ?thesis by (simp add: ceil_div_def)
qed

text \<open>
  Claim C8. Whenever the backend answers the range query of the List route without error
  and with the exact count \<open>total\<close>, the response is the object with the fields
  \<^verbatim>\<open>page\<close>, \<^verbatim>\<open>total\<close>, \<^verbatim>\<open>totalPages\<close> and \<^verbatim>\<open>results\<close>, where \<^verbatim>\<open>totalPages\<close> is the
  ceiling of \<open>total / 30\<close>. The query asks for the offsets \<open>(page - 1) * 30\<close> to
  \<open>(page - 1) * 30 + 29\<close>; so for page 2 of a table of exactly 45 rows, a backend that
  serves ranges from the table gives 15 results, with total 45 and totalPages 2.
\<close>

theorem list_handler_pagination:
  "(\<forall>r s' total.
       be (SelectRange tableName Exact None
             ((num_or (parseInt (map_option to_string (query req ''page''))) 1 - 1) * 30)
             ((num_or (parseInt (map_option to_string (query req ''page''))) 1 - 1) * 30 + 29)) s = (r, s')
       \<and> rerror r = None \<and> rcount r = Some total
     \<longrightarrow> list_handler be tableName req s
          = (\<lparr>status = 200,
              json_body = Some (JObj
                [(''page'', JNum (num_or (parseInt (map_option to_string (query req ''page''))) 1)),
                 (''total'', JNum total),
                 (''totalPages'', JNum \<lceil>real_of_int total / 30\<rceil>),
                 (''results'', rdata r)])\<rparr>, s'))
   \<and> (query req ''page'' = Some (QStr ''2'') \<and> length rows = 45
        \<and> (\<forall>frm to. 0 \<le> frm \<and> frm \<le> to \<longrightarrow>
              fst (be (SelectRange tableName Exact None frm to) s)
                = \<lparr>rdata = JArr (take (nat (to - frm + 1)) (drop (nat frm) rows)),
                   rerror = None, rcount = Some (int (length rows))\<rparr>)
     \<longrightarrow> (\<exists>results. length results = 15
           \<and> fst (list_handler be tableName req s)
              = \<lparr>status = 200,
                 json_body = Some (JObj
                   [(''page'', JNum 2), (''total'', JNum 45), (''totalPages'', JNum 2),
                    (''results'', JArr results)])\<rparr>))"
proof (intro conjI allI impI)
  fix r s' total
  assume "be (SelectRange tableName Exact None
             ((num_or (parseInt (map_option to_string (query req ''page''))) 1 - 1) * 30)
             ((num_or (parseInt (map_option to_string (query req ''page''))) 1 - 1) * 30 + 29)) s = (r, s')
       \<and> rerror r = None \<and> rcount r = Some total"
  then show "list_handler be tableName req s
          = (\<lparr>status = 200,
              json_body = Some (JObj
                [(''page'', JNum (num_or (parseInt (map_option to_string (query req ''page''))) 1)),
                 (''total'', JNum total),
                 (''totalPages'', JNum \<lceil>real_of_int total / 30\<rceil>),
                 (''results'', rdata r)])\<rparr>, s')"
    by (simp add: list_handler_def Let_def count_json_def ceil_div_ceiling)
next
  assume a: "query req ''page'' = Some (QStr ''2'') \<and> length rows = 45
        \<and> (\<forall>frm to. 0 \<le> frm \<and> frm \<le> to \<longrightarrow>
              fst (be (SelectRange tableName Exact None frm to) s)
                = \<lparr>rdata = JArr (take (nat (to - frm + 1)) (drop (nat frm) rows)),
                   rerror = None, rcount = Some (int (length rows))\<rparr>)"
  then have page: "num_or (parseInt (map_option to_string (query req ''page''))) 1 = 2"
    by (simp add: parseInt_def num_or_def is_space_def digit_of_def)
  from a have "fst (be (SelectRange tableName Exact None 30 59) s)
      = \<lparr>rdata = JArr (take (nat (59 - 30 + 1)) (drop (nat 30) rows)),
         rerror = None, rcount = Some (int (length rows))\<rparr>"
    by simp
  with a obtain s' where reply: "be (SelectRange tableName Exact None 30 59) s
      = (\<lparr>rdata = JArr (take 30 (drop 30 rows)), rerror = None, rcount = Some 45\<rparr>, s')"
    by (cases "be (SelectRange tableName Exact None 30 59) s") simp
  have "length (take 30 (drop 30 rows)) = 15" using a by simp
  moreover have "fst (list_handler be tableName req s)
      = \<lparr>status = 200,
         json_body = Some (JObj
           [(''page'', JNum 2), (''total'', JNum 45), (''totalPages'', JNum 2),
            (''results'', JArr (take 30 (drop 30 rows)))])\<rparr>"
    using reply page by (simp add: list_handler_def Let_def count_json_def ceil_div_def)
  ultimately show "\<exists>results. length results = 15
           \<and> fst (list_handler be tableName req s)
              = \<lparr>status = 200,
                 json_body = Some (JObj
                   [(''page'', JNum 2), (''total'', JNum 45), (''totalPages'', JNum 2),
                    (''results'', JArr results)])\<rparr>"
    by blast
qed

theorem list_handler_pagination_witness:
  "list_handler (serves_rows (replicate 45 JNull)) ''movies''
       (blank_request\<lparr>query := [''page'' \<mapsto> QStr ''2'']\<rparr>) ()
     = (\<lparr>status = 200,
         json_body = Some (JObj
           [(''page'', JNum 2), (''total'', JNum 45), (''totalPages'', JNum 2),
            (''results'', JArr (replicate 15 JNull))])\<rparr>, ())
   \<and> (\<exists>results. length results = 15
        \<and> fst (list_handler (serves_rows (replicate 45 JNull)) ''movies''
                 (blank_request\<lparr>query := [''page'' \<mapsto> QStr ''2'']\<rparr>) ())
           = \<lparr>status = 200,
              json_body = Some (JObj
                [(''page'', JNum 2), (''total'', JNum 45), (''totalPages'', JNum 2),
                 (''results'', JArr results)])\<rparr>)"
proof -
  let ?req = "blank_request\<lparr>query := [''page'' \<mapsto> QStr ''2'']\<rparr>"
  let ?rows = "replicate 45 JNull"
  let ?be = "serves_rows ?rows"
  let ?r = "\<lparr>rdata = JArr (replicate 15 JNull), rerror = None, rcount = Some 45\<rparr>"
  note both = list_handler_pagination [of ?be "''movies''" ?req "()" ?rows]
  have page: "num_or (parseInt (map_option to_string (query ?req ''page''))) 1 = 2"
    by (simp add: parseInt_def num_or_def is_space_def digit_of_def)
  have "?be (SelectRange ''movies'' Exact None ((2 - 1) * 30) ((2 - 1) * 30 + 29)) () = (?r, ())
      \<and> rerror ?r = None \<and> rcount ?r = Some 45"
    by (simp add: serves_rows_def)
  with both [THEN conjunct1] page
  have "list_handler ?be ''movies'' ?req ()
          = (\<lparr>status = 200,
              json_body = Some (JObj
                [(''page'', JNum 2), (''total'', JNum 45),
                 (''totalPages'', JNum \<lceil>real_of_int 45 / 30\<rceil>),
                 (''results'', rdata ?r)])\<rparr>, ())"
    by simp
  moreover have "\<lceil>real_of_int 45 / 30\<rceil> = 2" by (simp add: ceiling_eq_iff)
  ultimately have first: "list_handler ?be ''movies'' ?req ()
     = (\<lparr>status = 200,
         json_body = Some (JObj
           [(''page'', JNum 2), (''total'', JNum 45), (''totalPages'', JNum 2),
            (''results'', JArr (replicate 15 JNull))])\<rparr>, ())"
    by simp
  have "query ?req ''page'' = Some (QStr ''2'') \<and> length ?rows = 45
        \<and> (\<forall>frm to. 0 \<le> frm \<and> frm \<le> to \<longrightarrow>
              fst (?be (SelectRange ''movies'' Exact None frm to) ())
                = \<lparr>rdata = JArr (take (nat (to - frm + 1)) (drop (nat frm) ?rows)),
                   rerror = None, rcount = Some (int (length ?rows))\<rparr>)"
    by (simp add: serves_rows_def)
  with both [THEN conjunct2]
  have second: "\<exists>results. length results = 15
        \<and> fst (list_handler ?be ''movies'' ?req ())
           = \<lparr>status = 200,
              json_body = Some (JObj
                [(''page'', JNum 2), (''total'', JNum 45), (''totalPages'', JNum 2),
                 (''results'', JArr results)])\<rparr>"
    by (rule mp)
  from first second show ?thesis by (rule conjI)
qed

section \<open>Properties of the route table\<close>

lemma search_is_no_id: "\<not> seg_match (DigitsParam name) ''search''"
  by (simp add: is_digit_def)

lemma with_video_is_no_id: "\<not> seg_match (DigitsParam name) ''with-video''"
  by (simp add: is_digit_def)

lemma dispatch_table_search:
  "dispatch (generateRoutes tableName) GET [''api'', tableName, ''search''] = Some (Search tableName)"
  by (simp add: generateRoutes_def)

lemma dispatch_table_with_video:
  "dispatch (generateRoutes tableName) GET [''api'', tableName, ''with-video'']
     = Some (WithVideo tableName)"
  by (simp add: generateRoutes_def)

lemma dispatch_GET_literal:
  "seg = ''search'' \<or> seg = ''with-video'' \<Longrightarrow>
     dispatch (generateRoutes t @ rest) GET [''api'', tableName, seg]
       = (if map lower_char t = map lower_char tableName
          then Some (if seg = ''search'' then Search t else WithVideo t)
          else dispatch rest GET [''api'', tableName, seg])"
  by (auto simp: generateRoutes_def is_digit_def)

lemma app_routes_GET_literal:
  assumes "seg = ''search'' \<or> seg = ''with-video''"
  shows "dispatch app_routes GET [''api'', tableName, seg] \<noteq> Some (GetById t)"
proof -
  have app: "app_routes = generateRoutes ''movies'' @ generateRoutes ''series''
      @ generateRoutes ''anime'' @ [(GET, [], Health)]"
    by (simp add: app_routes_def)
  show ?thesis
    using assms by (auto simp: app dispatch_GET_literal split: if_splits)
qed

text \<open>
  Claim C9. In the routes that \<^verbatim>\<open>generateRoutes\<close> registers for a table name, the
  get-by-id route is the pattern \<^verbatim>\<open>/api/T/:id(\\d+)\<close>, registered after the
  \<^verbatim>\<open>/with-video\<close> and \<^verbatim>\<open>/search\<close> routes; its pattern matches a path
  \<^verbatim>\<open>/api/T/seg\<close> exactly when \<open>seg\<close> is a non-empty run of digits, so it matches neither
  \<^verbatim>\<open>search\<close> nor \<^verbatim>\<open>with-video\<close>. A request \<^verbatim>\<open>GET /api/T/search\<close> or
  \<^verbatim>\<open>GET /api/T/with-video\<close> is given to the search or the with-video handler of \<open>T\<close>,
  and in the application, whatever the table segment, never to a get-by-id handler.
\<close>

theorem search_routes_precede_id_route:
  "generateRoutes tableName ! 4
      = (GET, [Lit ''api'', Lit tableName, DigitsParam ''id''], GetById tableName)
   \<and> route_position (generateRoutes tableName) (GetById tableName) = 4
   \<and> route_position (generateRoutes tableName) (WithVideo tableName) = 2
   \<and> route_position (generateRoutes tableName) (Search tableName) = 3
   \<and> path_match [Lit ''api'', Lit tableName, DigitsParam ''id''] [''api'', tableName, seg]
        = (seg \<noteq> [] \<and> list_all is_digit seg)
   \<and> \<not> path_match [Lit ''api'', Lit tableName, DigitsParam ''id''] [''api'', tableName, ''search'']
   \<and> \<not> path_match [Lit ''api'', Lit tableName, DigitsParam ''id'']
          [''api'', tableName, ''with-video'']
   \<and> dispatch (generateRoutes tableName) GET [''api'', tableName, ''search'']
        = Some (Search tableName)
   \<and> dispatch (generateRoutes tableName) GET [''api'', tableName, ''with-video'']
        = Some (WithVideo tableName)
   \<and> dispatch app_routes GET [''api'', tableName, ''search''] \<noteq> Some (GetById t)
   \<and> dispatch app_routes GET [''api'', tableName, ''with-video''] \<noteq> Some (GetById t)
   \<and> dispatch app_routes GET [''api'', ''movies'', ''search''] = Some (Search ''movies'')
   \<and> dispatch app_routes GET [''api'', ''series'', ''search''] = Some (Search ''series'')
   \<and> dispatch app_routes GET [''api'', ''anime'', ''search''] = Some (Search ''anime'')
   \<and> dispatch app_routes GET [''api'', ''movies'', ''with-video''] = Some (WithVideo ''movies'')
   \<and> dispatch app_routes GET [''api'', ''series'', ''with-video''] = Some (WithVideo ''series'')
   \<and> dispatch app_routes GET [''api'', ''anime'', ''with-video''] = Some (WithVideo ''anime'')"
proof -
  have app: "app_routes = generateRoutes ''movies'' @ generateRoutes ''series''
      @ generateRoutes ''anime'' @ [(GET, [], Health)]"
    by (simp add: app_routes_def)
  have "generateRoutes tableName ! 4
      = (GET, [Lit ''api'', Lit tableName, DigitsParam ''id''], GetById tableName)"
    by (simp add: generateRoutes_def)
  moreover have "route_position (generateRoutes tableName) (GetById tableName) = 4"
    "route_position (generateRoutes tableName) (WithVideo tableName) = 2"
    "route_position (generateRoutes tableName) (Search tableName) = 3"
    by (simp_all add: route_position_def generateRoutes_def)
  moreover have "path_match [Lit ''api'', Lit tableName, DigitsParam ''id''] [''api'', tableName, seg]
        = (seg \<noteq> [] \<and> list_all is_digit seg)"
    by simp
  moreover have "\<not> path_match [Lit ''api'', Lit tableName, DigitsParam ''id'']
      [''api'', tableName, ''search'']"
    "\<not> path_match [Lit ''api'', Lit tableName, DigitsParam ''id'']
      [''api'', tableName, ''with-video'']"
    by (simp_all add: is_digit_def)
  moreover note dispatch_table_search [of tableName] dispatch_table_with_video [of tableName]
  moreover have "dispatch app_routes GET [''api'', tableName, ''search''] \<noteq> Some (GetById t)"
    "dispatch app_routes GET [''api'', tableName, ''with-video''] \<noteq> Some (GetById t)"
    by (simp_all add: app_routes_GET_literal)
  moreover have "dispatch app_routes GET [''api'', ''movies'', ''search''] = Some (Search ''movies'')"
    "dispatch app_routes GET [''api'', ''series'', ''search''] = Some (Search ''series'')"
    "dispatch app_routes GET [''api'', ''anime'', ''search''] = Some (Search ''anime'')"
    "dispatch app_routes GET [''api'', ''movies'', ''with-video''] = Some (WithVideo ''movies'')"
    "dispatch app_routes GET [''api'', ''series'', ''with-video''] = Some (WithVideo ''series'')"
    "dispatch app_routes GET [''api'', ''anime'', ''with-video''] = Some (WithVideo ''anime'')"
    by (simp_all add: app dispatch_GET_literal lower_char_def)
  ultimately show ?thesis by blast
qed

section \<open>Properties of the search route\<close>

lemma trimmed_param_string:
  "single_string v \<Longrightarrow>
     trimmed_param name v = Inr (trim (case v of Some (QStr text) \<Rightarrow> text | _ \<Rightarrow> []))"
  by (cases v; cases "the v") (simp_all add: single_string_def trimmed_param_def)

text \<open>
  Claim C10, as the code has it. For every Search request whose \<^verbatim>\<open>q\<close> parameter is
  absent or a single string and whose \<^verbatim>\<open>id\<close> parameter is a string that is not blank
  after trimming, the handler issues exactly one backend call, the single-row lookup by
  the trimmed id, answers from it (404 with the backend's message on an error, the row
  otherwise), and its outcome is the same for every such \<^verbatim>\<open>q\<close>, given or not: the
  substring search is not run.
\<close>

theorem search_id_takes_precedence:
  assumes "query req ''id'' = Some (QStr raw)" and "trim raw \<noteq> []"
    and "single_string (query req ''q'')"
    and "be (SelectSingle tableName (JStr (trim raw))) s = (r, s')"
  shows "search_handler (logged be) tableName req (s, tr)
           = ((case rerror r of
                 Some msg \<Rightarrow> \<lparr>status = 404, json_body = json_error msg\<rparr>
               | None \<Rightarrow> \<lparr>status = 200, json_body = Some (rdata r)\<rparr>),
              (s', tr @ [SelectSingle tableName (JStr (trim raw))]))
     \<and> search_handler (logged be) tableName
           (req\<lparr>query := (query req)(''q'' := map_option QStr qv)\<rparr>) (s, tr)
           = search_handler (logged be) tableName req (s, tr)"
proof -
  have one: "search_handler (logged be) tableName rq (s, tr)
           = ((case rerror r of
                 Some msg \<Rightarrow> \<lparr>status = 404, json_body = json_error msg\<rparr>
               | None \<Rightarrow> \<lparr>status = 200, json_body = Some (rdata r)\<rparr>),
              (s', tr @ [SelectSingle tableName (JStr (trim raw))]))"
    if id: "query rq ''id'' = Some (QStr raw)" and q: "single_string (query rq ''q'')" for rq
  proof -
    have "trimmed_param ''id'' (query rq ''id'') = Inr (trim raw)"
      using id by (simp add: trimmed_param_def)
    moreover note trimmed_param_string [OF q, of "''q''"]
    ultimately show ?thesis
      using assms(2,4) by (simp add: search_handler_def logged_def split: option.splits)
  qed
  let ?req' = "req\<lparr>query := (query req)(''q'' := map_option QStr qv)\<rparr>"
  have "query ?req' ''id'' = Some (QStr raw)" using assms(1) by simp
  moreover have "single_string (query ?req' ''q'')"
    by (cases qv) (simp_all add: single_string_def)
  ultimately have "search_handler (logged be) tableName ?req' (s, tr)
           = ((case rerror r of
                 Some msg \<Rightarrow> \<lparr>status = 404, json_body = json_error msg\<rparr>
               | None \<Rightarrow> \<lparr>status = 200, json_body = Some (rdata r)\<rparr>),
              (s', tr @ [SelectSingle tableName (JStr (trim raw))]))"
    by (rule one)
  with one [OF assms(1) assms(3)] show ?thesis by simp
qed

theorem search_id_takes_precedence_witness:
  "search_handler (logged one_movie) ''movies'' search_id_and_q ((), [])
     = (\<lparr>status = 200, json_body = Some (JObj [(''id'', JNum 1), (''title'', JStr ''Heat'')])\<rparr>,
        ((), [SelectSingle ''movies'' (JStr ''1'')]))
   \<and> search_handler (logged one_movie) ''movies''
        (search_id_and_q\<lparr>query := (query search_id_and_q)(''q'' := None)\<rparr>) ((), [])
     = search_handler (logged one_movie) ''movies'' search_id_and_q ((), [])"
proof -
  have raw: "query search_id_and_q ''id'' = Some (QStr '' 1 '')"
    by (simp add: search_id_and_q_def blank_request_def)
  have q: "single_string (query search_id_and_q ''q'')"
    by (simp add: search_id_and_q_def blank_request_def single_string_def)
  have trimmed: "trim '' 1 '' = ''1''"
    by (simp add: trim_def is_space_def)
  then have nonblank: "trim '' 1 '' \<noteq> []" by simp
  have found: "one_movie (SelectSingle ''movies'' (JStr (trim '' 1 ''))) ()
      = (\<lparr>rdata = JObj [(''id'', JNum 1), (''title'', JStr ''Heat'')], rerror = None,
           rcount = None\<rparr>, ())"
    by (simp add: trimmed one_movie_def)
  from search_id_takes_precedence [where be = one_movie and tableName = "''movies''"
      and req = search_id_and_q and s = "()" and tr = "[]" and qv = None,
      OF raw nonblank q found]
  show ?thesis by (simp add: trimmed)
qed

text \<open>
  The claim as the specification words it, for every Search request with a non-blank
  \<^verbatim>\<open>id\<close> and a non-blank \<^verbatim>\<open>q\<close>, fails on a request that gives \<^verbatim>\<open>q\<close> twice: the
  handler trims \<^verbatim>\<open>q\<close> before it tests \<^verbatim>\<open>id\<close>, the array has no \<^verbatim>\<open>trim\<close>, and the
  response is a 500 without any lookup by id.
\<close>

theorem search_repeated_q_counterexample:
  "query search_id_and_repeated_q ''id'' = Some (QStr ''1'')
   \<and> query search_id_and_repeated_q ''q'' = Some (QArr [QStr ''Heat'', QStr ''Matrix''])
   \<and> status (fst (search_handler (logged one_movie) ''movies'' search_id_and_repeated_q ((), [])))
        = 500
   \<and> snd (search_handler (logged one_movie) ''movies'' search_id_and_repeated_q ((), []))
        = ((), [])"
  by (simp add: search_id_and_repeated_q_def blank_request_def search_handler_def
      trimmed_param_def)

end
